theory Spec2Isabelle
  imports Complex_Main "HOL-Library.Char_ord" "HOL-Library.List_Lexorder"
    "HOL-Library.Product_Lexorder"
begin

section \<open>Cells, tables and the library operations the code relies on\<close>

text \<open>
  The program is a pipeline of pandas transformations. A DataFrame is modelled as a list
  of column names and a list of rows; a row gives the cell of every column name (its
  value at a name that is not a column of the table is never read by the model).

  A cell is one of the Python objects the code meets: an int, a float, text, the float
  NaN, \<open>None\<close>, or a \<open>datetime.date\<close> (days since 1970-01-01). Floats are modelled by
  the rational number they denote: arithmetic is exact, and the infinities and the
  bounded range of machine integers are outside the model.
\<close>

datatype cell = CInt int | CFlt rat | CStr string | CNaN | CNone | CDate int

datatype error = ValueError string | KeyError string | TypeError | AttributeError

type_synonym row = "string \<Rightarrow> cell"

record table =
  cols :: "string list"
  rows :: "row list"

text \<open>\<open>pd.isna\<close> on a scalar.\<close>

definition isna :: "cell \<Rightarrow> bool" where
  "isna c = (c = CNaN \<or> c = CNone)"

text \<open>The value of a cell that holds a Python number; \<open>None\<close> for any other object.\<close>

fun as_number :: "cell \<Rightarrow> rat option" where
  "as_number (CInt i) = Some (of_int i)"
| "as_number (CFlt r) = Some r"
| "as_number _ = None"

text \<open>
  \<open>pd.to_numeric(..., errors="coerce")\<close> on one cell: a float, or NaN (here \<open>None\<close>).
  Text that pandas reads as a number is represented by that number in the table, so a
  \<open>CStr\<close> cell in a column read this way is text that does not parse.
\<close>

definition to_numeric :: "cell \<Rightarrow> rat option" where
  "to_numeric c = as_number c"

text \<open>\<open>.fillna(v)\<close> on one float.\<close>

definition fillna :: "rat \<Rightarrow> rat option \<Rightarrow> rat" where
  "fillna v x = (case x of None \<Rightarrow> v | Some y \<Rightarrow> y)"

text \<open>
  \<open>.round(0)\<close> and \<open>.round(1)\<close>: numpy rounds half to even, and rounds to one
  decimal by rounding ten times the value to an integer.
\<close>

definition rint :: "rat \<Rightarrow> int" where
  "rint y = (let f = \<lfloor>y\<rfloor>; d = y - of_int f in
     if d < 1 / 2 then f else if 1 / 2 < d then f + 1 else if even f then f else f + 1)"

definition round1 :: "rat \<Rightarrow> rat" where
  "round1 x = of_int (rint (x * 10)) / 10"

subsection \<open>\<open>str(x)\<close>\<close>

definition digit_char :: "nat \<Rightarrow> char" where
  "digit_char n = char_of (48 + n)"

fun nat_str :: "nat \<Rightarrow> string" where
  "nat_str n = (if n < 10 then [digit_char n] else nat_str (n div 10) @ [digit_char (n mod 10)])"

declare nat_str.simps [simp del]

definition int_str :: "int \<Rightarrow> string" where
  "int_str i = (if i < 0 then CHR ''-'' # nat_str (nat (- i)) else nat_str (nat i))"

fun frac_digits :: "nat \<Rightarrow> rat \<Rightarrow> string" where
  "frac_digits 0 f = []"
| "frac_digits (Suc k) f =
     (if f = 0 then []
      else digit_char (nat \<lfloor>f * 10\<rfloor>) # frac_digits k (f * 10 - of_int \<lfloor>f * 10\<rfloor>))"

text \<open>
  A float in fixed notation, as Python prints one whose magnitude is between 1e-4 and
  1e16: \<open>123.0\<close>, \<open>0.5\<close>, \<open>-2.25\<close>.
\<close>

definition float_str :: "rat \<Rightarrow> string" where
  "float_str r =
     (let a = \<bar>r\<bar>; ds = frac_digits 17 (a - of_int \<lfloor>a\<rfloor>)
      in (if r < 0 then ''-'' else '''') @ nat_str (nat \<lfloor>a\<rfloor>) @ ''.''
           @ (if ds = [] then ''0'' else ds))"

definition pad :: "nat \<Rightarrow> string \<Rightarrow> string" where
  "pad n s = replicate (n - length s) CHR ''0'' @ s"

text \<open>\<open>str\<close> of a \<open>datetime.date\<close>: the ISO form of the civil date of a day number.\<close>

definition date_str :: "int \<Rightarrow> string" where
  "date_str d =
     (let z = d + 719468;
          era = z div 146097;
          doe = z - era * 146097;
          yoe = (doe - doe div 1460 + doe div 36524 - doe div 146096) div 365;
          doy = doe - (365 * yoe + yoe div 4 - yoe div 100);
          mp = (5 * doy + 2) div 153;
          dd = doy - (153 * mp + 2) div 5 + 1;
          m = (if mp < 10 then mp + 3 else mp - 9);
          y = yoe + era * 400 + (if m \<le> 2 then 1 else 0)
      in pad 4 (int_str y) @ ''-'' @ pad 2 (int_str m) @ ''-'' @ pad 2 (int_str dd))"

fun py_str :: "cell \<Rightarrow> string" where
  "py_str (CInt i) = int_str i"
| "py_str (CFlt r) = float_str r"
| "py_str (CStr s) = s"
| "py_str CNaN = ''nan''"
| "py_str CNone = ''None''"
| "py_str (CDate d) = date_str d"

text \<open>\<open>str.isdigit\<close>, \<open>str.strip\<close>, \<open>str.lower\<close> and \<open>str.upper\<close> on ASCII text.\<close>

definition isdigit :: "char \<Rightarrow> bool" where
  "isdigit ch = (CHR ''0'' \<le> ch \<and> ch \<le> CHR ''9'')"

definition isspace :: "char \<Rightarrow> bool" where
  "isspace ch = (ch = CHR '' '' \<or> (9 \<le> (of_char ch :: nat) \<and> (of_char ch :: nat) \<le> 13)
                 \<or> (28 \<le> (of_char ch :: nat) \<and> (of_char ch :: nat) \<le> 31))"

definition strip :: "string \<Rightarrow> string" where
  "strip s = rev (dropWhile isspace (rev (dropWhile isspace s)))"

definition lstrip0 :: "string \<Rightarrow> string" where
  "lstrip0 s = dropWhile (\<lambda>ch. ch = CHR ''0'') s"

subsection \<open>Column assignment and statements\<close>

text \<open>\<open>col in df.columns\<close>.\<close>

definition has_col :: "string \<Rightarrow> table \<Rightarrow> bool" where
  "has_col c t = (c \<in> set (cols t))"

definition add_col :: "string \<Rightarrow> string list \<Rightarrow> string list" where
  "add_col c cs = (if c \<in> set cs then cs else cs @ [c])"

text \<open>\<open>df[c] = f(row)\<close> for every row: a vectorised column assignment.\<close>

definition assign :: "string \<Rightarrow> (row \<Rightarrow> cell) \<Rightarrow> table \<Rightarrow> table" where
  "assign c f t = t\<lparr>cols := add_col c (cols t), rows := map (\<lambda>r. r(c := f r)) (rows t)\<rparr>"

fun mapE :: "('a \<Rightarrow> error + 'b) \<Rightarrow> 'a list \<Rightarrow> error + 'b list" where
  "mapE f [] = Inr []"
| "mapE f (x # xs) =
     (case f x of
        Inl e \<Rightarrow> Inl e
      | Inr y \<Rightarrow> (case mapE f xs of Inl e \<Rightarrow> Inl e | Inr ys \<Rightarrow> Inr (y # ys)))"

text \<open>The same where the function applied to a cell may raise: the first raise wins.\<close>

definition assignE :: "string \<Rightarrow> (row \<Rightarrow> error + cell) \<Rightarrow> table \<Rightarrow> error + table" where
  "assignE c f t =
     (case mapE (\<lambda>r. case f r of Inl e \<Rightarrow> Inl e | Inr v \<Rightarrow> Inr (r(c := v))) (rows t) of
        Inl e \<Rightarrow> Inl e
      | Inr rs \<Rightarrow> Inr (t\<lparr>cols := add_col c (cols t), rows := rs\<rparr>))"

text \<open>
  A function body is a list of statements on the DataFrame variable it works on.
  \<open>Assign\<close> changes the object the variable refers to in place (\<open>out[c] = ...\<close>,
  \<open>df.loc[mask, c] = ...\<close>, or a check that may raise and changes nothing);
  \<open>Rebind\<close> makes the variable refer to a new object (\<open>out = df.copy()\<close>,
  \<open>df = df.explode(...)\<close>, \<open>df = df.sort_values(...)\<close>).
\<close>

datatype stmt = Assign "table \<Rightarrow> error + table" | Rebind "table \<Rightarrow> error + table"

fun body :: "stmt \<Rightarrow> table \<Rightarrow> error + table" where
  "body (Assign f) = f"
| "body (Rebind f) = f"

text \<open>The value computed by a list of statements.\<close>

fun run :: "stmt list \<Rightarrow> table \<Rightarrow> error + table" where
  "run [] t = Inr t"
| "run (s # ss) t = (case body s t of Inl e \<Rightarrow> Inl e | Inr t' \<Rightarrow> run ss t')"

section \<open>Alert classifier (src/alerts.py)\<close>

definition CUST_ALERT_EXCLUDE_ITEMNOS :: "string list" where
  "CUST_ALERT_EXCLUDE_ITEMNOS =
    [''1002010105'', ''1002010107'', ''1002010301'', ''1002010302'', ''1002010303'',
     ''1002010304'', ''1002010305'', ''1002010308'', ''1002010401'', ''1002010405'',
     ''1002010410'', ''1002010411'', ''1002010412'', ''1002010413'', ''1002010414'',
     ''1002020101'', ''1002080101'', ''1002080102'', ''1002080103'', ''1002080104'',
     ''1002080201'', ''1002080202'', ''1002080203'', ''1002080204'', ''1002080302'',
     ''1002080303'', ''1002080304'', ''1002080401'', ''1002080402'', ''1002080501'',
     ''1002080502'', ''1002080601'', ''1002080701'', ''1002080801'', ''1002080901'',
     ''1002090101'', ''1002080301'', ''1002100102'', ''1001060606'', ''1001060607'',
     ''1001090305'']"

definition digits_only :: "cell \<Rightarrow> string" where
  "digits_only x =
     (if x = CNone then ''''
      else if x = CNaN then ''''
      else let s = py_str x;
               digits = filter isdigit s;
               digits = lstrip0 digits
           in if digits \<noteq> [] then digits else '''')"

text \<open>Comparing a cell that is neither a number nor missing with a number raises.\<close>

definition product_alert :: "cell \<Rightarrow> error + string" where
  "product_alert days =
     (if isna days then Inr ''''
      else case as_number days of
             None \<Rightarrow> Inl TypeError
           | Some d \<Rightarrow>
               Inr (if d < 7 then ''RED''
                    else if d < 21 then ''ORANGE''
                    else if d < 60 then ''YELLOW''
                    else ''GREEN''))"

definition cust_alert :: "cell \<Rightarrow> error + string" where
  "cust_alert days =
     (if isna days then Inr ''''
      else case as_number days of
             None \<Rightarrow> Inl TypeError
           | Some d \<Rightarrow>
               Inr (if d < 5 then ''RED''
                    else if d < 10 then ''ORANGE''
                    else if d < 20 then ''YELLOW''
                    else ''GREEN''))"

definition apply_alert :: "(cell \<Rightarrow> error + string) \<Rightarrow> string \<Rightarrow> row \<Rightarrow> error + cell" where
  "apply_alert f c r = (case f (r c) of Inl e \<Rightarrow> Inl e | Inr s \<Rightarrow> Inr (CStr s))"

text \<open>\<open>out.loc[mask_excluded, "CUST Alert"] = ""\<close>, when the table has an item number.\<close>

definition exclude_row :: "row \<Rightarrow> row" where
  "exclude_row r =
     (if digits_only (r ''Item No.'') \<in> set CUST_ALERT_EXCLUDE_ITEMNOS
      then r(''CUST Alert'' := CStr '''') else r)"

definition apply_exclusions :: "table \<Rightarrow> table" where
  "apply_exclusions out =
     (if has_col ''Item No.'' out then out\<lparr>rows := map exclude_row (rows out)\<rparr> else out)"

definition add_alerts_body :: "stmt list" where
  "add_alerts_body =
     [Rebind Inr,
      Assign (\<lambda>out. if \<not> has_col ''Total Coverage Days'' out
                     then Inl (KeyError ''Total Coverage Days'')
                     else assignE ''Product Alert''
                            (apply_alert product_alert ''Total Coverage Days'') out),
      Assign (\<lambda>out. if \<not> has_col ''CUST Stock Days'' out
                     then Inl (KeyError ''CUST Stock Days'')
                     else assignE ''CUST Alert''
                            (apply_alert cust_alert ''CUST Stock Days'') out),
      Assign (\<lambda>out. Inr (apply_exclusions out))]"

definition add_alerts :: "table option \<Rightarrow> error + table option" where
  "add_alerts df =
     (case df of
        None \<Rightarrow> Inr None
      | Some d \<Rightarrow> (case run add_alerts_body d of Inl e \<Rightarrow> Inl e | Inr out \<Rightarrow> Inr (Some out)))"

definition alerts_example :: table where
  "alerts_example =
     \<lparr>cols = [''Item No.'', ''Total Coverage Days'', ''CUST Stock Days''],
      rows = [(\<lambda>_. CNaN)(''Item No.'' := CStr ''001002010105'',
                ''Total Coverage Days'' := CFlt 3, ''CUST Stock Days'' := CFlt 0)]\<rparr>"

section \<open>Metrics deriver (src/metrics.py)\<close>

text \<open>
  The number in a cell of a numeric column without missing values; the code reads a
  column this way only after it has written numbers to it.
\<close>

definition num_of :: "cell \<Rightarrow> rat" where
  "num_of c = (case as_number c of Some x \<Rightarrow> x | None \<Rightarrow> 0)"

text \<open>\<open>df[c]\<close> raises \<open>KeyError\<close> when the table has no column \<open>c\<close>.\<close>

definition need_col :: "string \<Rightarrow> table \<Rightarrow> error + table \<Rightarrow> error + table" where
  "need_col c t k = (if has_col c t then k else Inl (KeyError c))"

text \<open>\<open>pd.to_numeric(out[c], errors="coerce").fillna(0).round(0).astype(int)\<close>\<close>

definition qty_cell :: "cell \<Rightarrow> cell" where
  "qty_cell c = CInt (rint (fillna 0 (to_numeric c)))"

text \<open>\<open>pd.to_numeric(out[c], errors="coerce").fillna(0).round(1)\<close>\<close>

definition days_cell :: "cell \<Rightarrow> cell" where
  "days_cell c = CFlt (round1 (fillna 0 (to_numeric c)))"

text \<open>
  Dividing by \<open>float(working_days)\<close> when that is zero gives infinities or NaN, which
  \<open>astype(int)\<close> refuses; an empty column has nothing to refuse.
\<close>

definition compute_metrics_qty_based_body ::
  "int \<Rightarrow> string \<Rightarrow> string \<Rightarrow> string \<Rightarrow> string \<Rightarrow> string \<Rightarrow> string \<Rightarrow> stmt list" where
  "compute_metrics_qty_based_body working_days monthly_demand_col mpi_qty_col cust_qty_col
       total_qty_col mpi_days_col cust_days_col =
     [Rebind Inr,
      Assign (\<lambda>out. need_col monthly_demand_col out
         (Inr (assign ''Monthly Demand'' (\<lambda>r. qty_cell (r monthly_demand_col)) out))),
      Assign (\<lambda>out.
         if working_days = 0 \<and> rows out \<noteq> []
         then Inl (ValueError ''Cannot convert non-finite values (NA or inf) to integer'')
         else Inr (assign ''Daily Demand''
                (\<lambda>r. CInt (rint (num_of (r ''Monthly Demand'') / of_int working_days))) out)),
      Assign (\<lambda>out. need_col mpi_qty_col out
         (Inr (assign ''MPI Stock Qty'' (\<lambda>r. qty_cell (r mpi_qty_col)) out))),
      Assign (\<lambda>out. need_col cust_qty_col out
         (Inr (assign ''CUST Stock Qty'' (\<lambda>r. qty_cell (r cust_qty_col)) out))),
      Assign (\<lambda>out. need_col total_qty_col out
         (Inr (assign ''Stock'' (\<lambda>r. qty_cell (r total_qty_col)) out))),
      Assign (\<lambda>out. need_col mpi_days_col out
         (Inr (assign ''MPI Stock days'' (\<lambda>r. days_cell (r mpi_days_col)) out))),
      Assign (\<lambda>out. need_col cust_days_col out
         (Inr (assign ''CUST Stock Days'' (\<lambda>r. days_cell (r cust_days_col)) out))),
      Assign (\<lambda>out. Inr (assign ''Total Coverage Days''
         (\<lambda>r. CFlt (round1 (num_of (r ''MPI Stock days'') + num_of (r ''CUST Stock Days'')))) out)),
      Assign (\<lambda>out. Inr (assign ''Total Coverage Month''
         (\<lambda>r. CFlt (round1 (num_of (r ''Total Coverage Days'') / of_int working_days))) out))]"

definition compute_metrics_qty_based ::
  "table \<Rightarrow> int \<Rightarrow> string \<Rightarrow> string \<Rightarrow> string \<Rightarrow> string \<Rightarrow> string \<Rightarrow> string \<Rightarrow> error + table" where
  "compute_metrics_qty_based df working_days monthly_demand_col mpi_qty_col cust_qty_col
       total_qty_col mpi_days_col cust_days_col =
     run (compute_metrics_qty_based_body working_days monthly_demand_col mpi_qty_col
            cust_qty_col total_qty_col mpi_days_col cust_days_col) df"

text \<open>The cell of row \<open>i\<close> and column \<open>c\<close> of a result.\<close>

definition cell_at :: "error + table \<Rightarrow> nat \<Rightarrow> string \<Rightarrow> error + cell" where
  "cell_at res i c =
     (case res of
        Inl e \<Rightarrow> Inl e
      | Inr t \<Rightarrow> if i < length (rows t) then Inr ((rows t ! i) c) else Inl (KeyError c))"

definition metrics_example :: table where
  "metrics_example =
     \<lparr>cols = [''Item No.'', ''Min Stock / M.D.'', ''MPI Stock'', ''CUST Stock'', ''Total Stock'',
              ''MPI Stock days'', ''CUST Stock Days''],
      rows = [(\<lambda>_. CNaN)(''Item No.'' := CStr ''00123'', ''Min Stock / M.D.'' := CInt 2600,
                 ''MPI Stock'' := CInt 0, ''CUST Stock'' := CInt 40, ''Total Stock'' := CInt 40,
                 ''MPI Stock days'' := CFlt (5 / 2), ''CUST Stock Days'' := CFlt (3 / 2))]\<rparr>"

definition metrics_negative_example :: table where
  "metrics_negative_example =
     \<lparr>cols = [''Item No.'', ''Min Stock / M.D.'', ''MPI Stock'', ''CUST Stock'', ''Total Stock'',
              ''MPI Stock days'', ''CUST Stock Days''],
      rows = [(\<lambda>_. CNaN)(''Item No.'' := CStr ''00123'', ''Min Stock / M.D.'' := CInt 2600,
                 ''MPI Stock'' := CInt 0, ''CUST Stock'' := CInt 40, ''Total Stock'' := CInt 40,
                 ''MPI Stock days'' := CFlt (- 5), ''CUST Stock Days'' := CFlt (3 / 2))]\<rparr>"

section \<open>Demand classifier and production plan builder (src/machine_plan.py)\<close>

text \<open>
  \<open>Series.quantile(q)\<close> of a non-empty series: linear interpolation between the two
  order statistics around position \<open>(n - 1) * q\<close>.
\<close>

definition quantile :: "rat list \<Rightarrow> rat \<Rightarrow> rat" where
  "quantile xs q =
     (let s = sort xs;
          h = of_nat (length s - 1) * q;
          lo = nat \<lfloor>h\<rfloor>;
          hi = min (lo + 1) (length s - 1)
      in s ! lo + (h - of_nat lo) * (s ! hi - s ! lo))"

definition cls :: "rat \<Rightarrow> rat \<Rightarrow> rat \<Rightarrow> rat \<Rightarrow> rat \<Rightarrow> string" where
  "cls p90 p70 p40 p15 v =
     (if p90 \<le> v then ''VERY_HIGH''
      else if p70 \<le> v then ''HIGH''
      else if p40 \<le> v then ''MEDIUM''
      else if p15 \<le> v then ''LOW''
      else ''VERY_LOW'')"

definition classify_by_percentiles :: "cell list \<Rightarrow> string list" where
  "classify_by_percentiles monthly_demand =
     (let s = map (\<lambda>c. fillna 0 (to_numeric c)) monthly_demand;
          nz = filter (\<lambda>v. 0 < v) s
      in if length nz = 0 then replicate (length s) ''VERY_LOW''
         else let p90 = quantile nz (9 / 10);
                  p70 = quantile nz (7 / 10);
                  p40 = quantile nz (4 / 10);
                  p15 = quantile nz (15 / 100)
              in map (cls p90 p70 p40 p15) s)"

text \<open>The arguments of \<open>build_production_plan\<close>; a map that is \<open>None\<close> takes its default.\<close>

record plan_params =
  machine_col :: string
  working_days :: int
  demand_col :: string
  daily_col :: string
  coverage_days_col :: string
  alert_col :: string
  itemno_col :: string
  target_months_map :: "(string \<Rightarrow> rat option) option"
  safety_days_map :: "(string \<Rightarrow> rat option) option"
  min_batch_months_map :: "(string \<Rightarrow> rat option) option"
  batch_round_to :: int
  target_months_input_col :: string
  safety_days_input_col :: string

definition target_months_of :: "plan_params \<Rightarrow> string \<Rightarrow> rat option" where
  "target_months_of p =
     (case target_months_map p of
        None \<Rightarrow> map_of [(''VERY_HIGH'', 3), (''HIGH'', 4), (''MEDIUM'', 6), (''LOW'', 9),
                         (''VERY_LOW'', 12)]
      | Some m \<Rightarrow> m)"

definition safety_days_of :: "plan_params \<Rightarrow> string \<Rightarrow> rat option" where
  "safety_days_of p =
     (case safety_days_map p of
        None \<Rightarrow> map_of [(''VERY_HIGH'', 14), (''HIGH'', 10), (''MEDIUM'', 7), (''LOW'', 5),
                         (''VERY_LOW'', 3)]
      | Some m \<Rightarrow> m)"

definition min_batch_months_of :: "plan_params \<Rightarrow> string \<Rightarrow> rat option" where
  "min_batch_months_of p =
     (case min_batch_months_map p of
        None \<Rightarrow> map_of [(''LOW'', 4), (''VERY_LOW'', 6)]
      | Some m \<Rightarrow> m)"

text \<open>The loop over the required columns: the first one missing is reported.\<close>

definition check_required :: "plan_params \<Rightarrow> table \<Rightarrow> error + table" where
  "check_required p df =
     (case filter (\<lambda>c. \<not> has_col c df)
             [machine_col p, demand_col p, daily_col p, coverage_days_col p] of
        [] \<Rightarrow> Inr df
      | c # _ \<Rightarrow> Inl (ValueError (''Missing required column: '' @ c)))"

text \<open>\<open>s.split(sep)\<close> for a one-character separator.\<close>

fun split_on :: "char \<Rightarrow> string \<Rightarrow> string list" where
  "split_on sep [] = [[]]"
| "split_on sep (c # cs) =
     (if c = sep then [] # split_on sep cs
      else (case split_on sep cs of [] \<Rightarrow> [[c]] | w # ws \<Rightarrow> (c # w) # ws))"

text \<open>
  \<open>df.explode("Machine")\<close>: one row per token. Before it, the cell of \<open>Machine\<close>
  stands for the list \<open>s.split("-")\<close> through the text \<open>s\<close> that was split.
\<close>

definition explode_machine :: "table \<Rightarrow> table" where
  "explode_machine df =
     df\<lparr>rows := concat (map (\<lambda>r. map (\<lambda>tok. r(''Machine'' := CStr tok))
                                    (split_on CHR ''-'' (py_str (r ''Machine'')))) (rows df))\<rparr>"

text \<open>\<open>df[c] = series\<close> for a series computed from whole columns.\<close>

definition setitem :: "string \<Rightarrow> cell list \<Rightarrow> table \<Rightarrow> table" where
  "setitem c vs t =
     t\<lparr>cols := add_col c (cols t), rows := map (\<lambda>(r, v). r(c := v)) (zip (rows t) vs)\<rparr>"

definition explode_stmts :: "plan_params \<Rightarrow> stmt list" where
  "explode_stmts p =
     [Assign (\<lambda>df. Inr (assign (machine_col p) (\<lambda>r. CStr (py_str (r (machine_col p)))) df)),
      Assign (\<lambda>df. Inr (assign ''Machine'' (\<lambda>r. r (machine_col p)) df)),
      Rebind (\<lambda>df. Inr (explode_machine df)),
      Assign (\<lambda>df. Inr (assign ''Machine'' (\<lambda>r. CStr (strip (py_str (r ''Machine'')))) df)),
      Assign (\<lambda>df. Inr (assign ''Machine''
         (\<lambda>r. if r ''Machine'' \<in> set [CStr ''nan'', CStr ''None'', CStr '''']
              then CStr ''UNSPECIFIED'' else r ''Machine'') df))]"

text \<open>
  An override cell replaces the automatic value when it parses as a number that is
  positive (months) or not negative (safety days); \<open>ok\<close> is that test.
\<close>

definition override :: "string \<Rightarrow> (rat \<Rightarrow> bool) \<Rightarrow> string \<Rightarrow> table \<Rightarrow> row \<Rightarrow> cell" where
  "override input_col ok auto df r =
     (if has_col input_col df
      then (case to_numeric (r input_col) of
              None \<Rightarrow> r auto
            | Some x \<Rightarrow> if ok x then CFlt x else r auto)
      else r auto)"

definition target_stmts :: "plan_params \<Rightarrow> stmt list" where
  "target_stmts p =
     [Assign (\<lambda>df. Inr (setitem ''Demand Class''
         (map CStr (classify_by_percentiles (map (\<lambda>r. r (demand_col p)) (rows df)))) df)),
      Assign (\<lambda>df. Inr (assign ''Target Months (Auto)''
         (\<lambda>r. CFlt (fillna 6 (target_months_of p (py_str (r ''Demand Class''))))) df)),
      Assign (\<lambda>df. Inr (assign ''Safety Days (Auto)''
         (\<lambda>r. CFlt (fillna 5 (safety_days_of p (py_str (r ''Demand Class''))))) df)),
      Assign (\<lambda>df. Inr (assign ''Target Months (Final)''
         (override (target_months_input_col p) (\<lambda>x. 0 < x) ''Target Months (Auto)'' df) df)),
      Assign (\<lambda>df. Inr (assign ''Safety Days (Final)''
         (override (safety_days_input_col p) (\<lambda>x. 0 \<le> x) ''Safety Days (Auto)'' df) df))]"

text \<open>\<open>int(math.ceil(q / b) * b) if q > 0 else 0\<close>\<close>

definition round_to_batch :: "int \<Rightarrow> int \<Rightarrow> int" where
  "round_to_batch b q = (if 0 < q then \<lceil>(of_int q :: rat) / of_int b\<rceil> * b else 0)"

text \<open>\<open>.map(priority_map).fillna(9).astype(int)\<close>\<close>

definition alert_priority :: "cell \<Rightarrow> int" where
  "alert_priority c =
     (if c = CStr ''RED'' then 0
      else if c = CStr ''ORANGE'' then 1
      else if c = CStr ''YELLOW'' then 2
      else if c = CStr ''GREEN'' then 3
      else 9)"

text \<open>
  Section 4 of the builder on one row: the series read before any column is written,
  then the column assignments in the order of the source.
\<close>

definition plan_math_row :: "plan_params \<Rightarrow> row \<Rightarrow> row" where
  "plan_math_row p r0 =
     (let current_cov = fillna 0 (to_numeric (r0 (coverage_days_col p)));
          daily = fillna 0 (to_numeric (r0 (daily_col p)));
          wd = of_int (working_days p);
          r = r0(''Target Coverage Days'' :=
                   CFlt (round1 (num_of (r0 ''Target Months (Final)'') * wd)));
          r = r(''Plan Coverage Days'' :=
                   CFlt (round1 (num_of (r ''Target Coverage Days'')
                                 + num_of (r ''Safety Days (Final)''))));
          min_months = fillna 0 (min_batch_months_of p (py_str (r ''Demand Class'')));
          min_plan_days = round1 (min_months * wd);
          r = r(''Plan Coverage Days'' :=
                   CFlt (round1 (max (num_of (r ''Plan Coverage Days'')) min_plan_days)));
          r = r(''Gap Days'' :=
                   CFlt (round1 (max 0 (num_of (r ''Plan Coverage Days'') - current_cov))));
          r = r(''Proposed Production Qty'' :=
                   CInt \<lceil>max 0 (num_of (r ''Gap Days'') * daily)\<rceil>)
      in if batch_round_to p \<noteq> 0 \<and> 0 < batch_round_to p
         then r(''Proposed Production Qty'' :=
                  CInt (round_to_batch (batch_round_to p)
                          \<lceil>num_of (r ''Proposed Production Qty'')\<rceil>))
         else r)"

text \<open>
  Section 5 up to the sort: the two helper columns, \<open>monthly\<close> being the series read
  from the demand column before section 4 wrote anything.
\<close>

definition plan_row :: "plan_params \<Rightarrow> row \<Rightarrow> row" where
  "plan_row p r0 =
     (let monthly = fillna 0 (to_numeric (r0 (demand_col p)));
          r = plan_math_row p r0
      in r(''_AlertPriority'' := CInt (alert_priority (r (alert_col p))),
           ''_MonthlyDemandNum'' := CFlt monthly))"

text \<open>
  \<open>df.get(alert_col, "")\<close> is the text \<open>""\<close> when the table has no such column, and
  \<open>"".map\<close> raises \<open>AttributeError\<close>.
\<close>

definition plan_math :: "plan_params \<Rightarrow> table \<Rightarrow> error + table" where
  "plan_math p df =
     (let cs = add_col ''Proposed Production Qty'' (add_col ''Gap Days''
                 (add_col ''Plan Coverage Days'' (add_col ''Target Coverage Days'' (cols df))))
      in if alert_col p \<notin> set cs then Inl AttributeError
         else Inr \<lparr>cols = add_col ''_MonthlyDemandNum'' (add_col ''_AlertPriority'' cs),
                   rows = map (plan_row p) (rows df)\<rparr>)"

text \<open>
  \<open>sort_values\<close> on several columns is a stable lexicographic sort; a descending
  numeric column is an ascending negated one.
\<close>

definition plan_sort_key :: "row \<Rightarrow> string \<times> rat \<times> rat \<times> rat \<times> rat" where
  "plan_sort_key r =
     (py_str (r ''Machine''), num_of (r ''_AlertPriority''), - num_of (r ''Gap Days''),
      - num_of (r ''Proposed Production Qty''), - num_of (r ''_MonthlyDemandNum''))"

text \<open>\<open>groupby(...).cumcount()\<close>: how many earlier rows have the same group key.\<close>

fun cumcount :: "'a list \<Rightarrow> 'a list \<Rightarrow> nat list" where
  "cumcount seen [] = []"
| "cumcount seen (x # xs) = count_list seen x # cumcount (x # seen) xs"

text \<open>\<open>df.drop(columns=cs, errors="ignore")\<close>: the cells of a dropped column stay out of reach.\<close>

definition drop_columns :: "string list \<Rightarrow> table \<Rightarrow> table" where
  "drop_columns cs t = t\<lparr>cols := filter (\<lambda>c. c \<notin> set cs) (cols t)\<rparr>"

definition rank_stmts :: "plan_params \<Rightarrow> stmt list" where
  "rank_stmts p =
     [Rebind (\<lambda>df. Inr (df\<lparr>rows := sort_key plan_sort_key (rows df)\<rparr>)),
      Assign (\<lambda>df. Inr (setitem ''Production Rank''
         (map (\<lambda>k. CInt (int k + 1)) (cumcount [] (map (\<lambda>r. r ''Machine'') (rows df)))) df)),
      Rebind (\<lambda>df. Inr (drop_columns [''_AlertPriority'', ''_MonthlyDemandNum''] df)),
      Assign (\<lambda>df. Inr (if has_col (itemno_col p) df
                         then assign (itemno_col p) (\<lambda>r. CStr (py_str (r (itemno_col p)))) df
                         else df))]"

definition build_production_plan_body :: "plan_params \<Rightarrow> stmt list" where
  "build_production_plan_body p =
     [Rebind Inr, Assign (check_required p)] @ explode_stmts p @ target_stmts p
       @ [Assign (plan_math p)] @ rank_stmts p"

definition build_production_plan :: "table \<Rightarrow> plan_params \<Rightarrow> error + table" where
  "build_production_plan master p = run (build_production_plan_body p) master"

definition demand_example :: "cell list" where
  "demand_example = [CInt 10, CInt 0, CStr ''n/a'', CInt 20, CInt 30]"



definition plan_example :: table where
  "plan_example =
     \<lparr>cols = [''Item No.'', ''Production Line'', ''Monthly Demand'', ''Daily Demand'',
              ''Total Coverage Days'', ''Product Alert''],
      rows = [(\<lambda>_. CNaN)(''Item No.'' := CStr ''00123'', ''Production Line'' := CStr ''M1'',
                 ''Monthly Demand'' := CInt 2600, ''Daily Demand'' := CInt 100,
                 ''Total Coverage Days'' := CFlt 10, ''Product Alert'' := CStr ''ORANGE'')]\<rparr>"

definition plan_example_params :: plan_params where
  "plan_example_params =
     \<lparr>machine_col = ''Production Line'', working_days = 26, demand_col = ''Monthly Demand'',
      daily_col = ''Daily Demand'', coverage_days_col = ''Total Coverage Days'',
      alert_col = ''Product Alert'', itemno_col = ''Item No.'',
      target_months_map = None, safety_days_map = None, min_batch_months_map = None,
      batch_round_to = 1000, target_months_input_col = ''Target Months Input'',
      safety_days_input_col = ''Safety Days Input''\<rparr>"




section \<open>Template fill (src/production_plan_export.py)\<close>

definition digits_key :: "cell \<Rightarrow> string" where
  "digits_key x = (if x = CNone then '''' else lstrip0 (filter isdigit (py_str x)))"

text \<open>
  A worksheet of openpyxl: its used range and the value of every cell (\<open>None\<close> for an
  empty one), rows and columns counted from 1. A workbook is its sheets by name; the
  bytes of the template stand for the workbook that \<open>load_workbook\<close> reads from them.
\<close>

record worksheet =
  max_row :: int
  max_column :: int
  value_at :: "int \<times> int \<Rightarrow> cell"

type_synonym workbook = "(string \<times> worksheet) list"

definition lower_char :: "char \<Rightarrow> char" where
  "lower_char ch =
     (if CHR ''A'' \<le> ch \<and> ch \<le> CHR ''Z'' then char_of (of_char ch + (32 :: nat)) else ch)"

definition lower :: "string \<Rightarrow> string" where
  "lower s = map lower_char s"

text \<open>\<open>str(h).strip().lower() if h is not None else ""\<close>\<close>

definition header_norm :: "cell \<Rightarrow> string" where
  "header_norm h = (if h = CNone then '''' else lower (strip (py_str h)))"

text \<open>\<open>xs.index(x)\<close>: the first position of \<open>x\<close>, or \<open>None\<close> where Python raises.\<close>

fun index_of :: "'a \<Rightarrow> 'a list \<Rightarrow> nat option" where
  "index_of x [] = None"
| "index_of x (y # ys) = (if x = y then Some 0 else map_option Suc (index_of x ys))"

text \<open>
  The column of a header in the header row, counted from 1. \<open>ws.cell\<close> refuses a row
  below 1.
\<close>

definition find_header :: "worksheet \<Rightarrow> int \<Rightarrow> string \<Rightarrow> error + int" where
  "find_header ws header_row header =
     (if header_row < 1 \<and> 1 \<le> max_column ws
      then Inl (ValueError ''Row or column values must be at least 1'')
      else case index_of (lower (strip header))
                  (map (\<lambda>c. header_norm (value_at ws (header_row, c))) [1 .. max_column ws]) of
             None \<Rightarrow> Inl (ValueError (''Header '' @ [CHR 0x27] @ header @ [CHR 0x27]
                                       @ '' not found in row '' @ int_str header_row))
           | Some i \<Rightarrow> Inr (int i + 1))"

text \<open>\<open>dict(zip(keys, values))\<close>: a later pair replaces an earlier one with the same key.\<close>

definition dict_of :: "('k \<times> 'v) list \<Rightarrow> 'k \<rightharpoonup> 'v" where
  "dict_of kvs = foldl (\<lambda>m (k, v). m(k \<mapsto> v)) Map.empty kvs"

text \<open>The plan map: normalised item key to quantity, zero included.\<close>

definition plan_qty_map :: "table \<Rightarrow> string \<Rightarrow> string \<Rightarrow> cell \<rightharpoonup> rat" where
  "plan_qty_map plan_df plan_itemno_col plan_qty_col =
     (let df = assign plan_itemno_col (\<lambda>r. CStr (digits_key (r plan_itemno_col))) plan_df;
          df = assign plan_qty_col (\<lambda>r. CFlt (fillna 0 (to_numeric (r plan_qty_col)))) df
      in dict_of (map (\<lambda>r. (r plan_itemno_col, num_of (r plan_qty_col))) (rows df)))"

record fill_state =
  sheet :: worksheet
  filled :: nat
  not_matched :: nat
  unmatched :: "string list"

text \<open>The loop over the data rows of the template.\<close>

fun fill_rows :: "(cell \<rightharpoonup> rat) \<Rightarrow> int \<Rightarrow> int \<Rightarrow> int list \<Rightarrow> fill_state \<Rightarrow> error + fill_state" where
  "fill_rows qty_map col_item col_qty [] st = Inr st"
| "fill_rows qty_map col_item col_qty (r # rs) st =
     (if r < 1 then Inl (ValueError ''Row or column values must be at least 1'')
      else let item_val = value_at (sheet st) (r, col_item);
               key = digits_key item_val
           in if key = [] then fill_rows qty_map col_item col_qty rs st
              else (case qty_map (CStr key) of
                      Some q \<Rightarrow>
                        fill_rows qty_map col_item col_qty rs
                          (st\<lparr>sheet := (sheet st)\<lparr>value_at :=
                                          (value_at (sheet st))((r, col_qty) := CFlt q)\<rparr>,
                              filled := filled st + 1\<rparr>)
                    | None \<Rightarrow>
                        fill_rows qty_map col_item col_qty rs
                          (st\<lparr>not_matched := not_matched st + 1,
                              unmatched := unmatched st @ [key]\<rparr>)))"

record fill_args =
  plan_itemno_col :: string
  plan_qty_col :: string
  sheet_name :: string
  header_row :: int
  start_row :: int
  sheet_itemno_header :: string
  sheet_qty_header :: string

definition fill_qty_in_client_orders ::
  "workbook \<Rightarrow> table \<Rightarrow> fill_args \<Rightarrow> error + workbook \<times> nat \<times> nat \<times> string list" where
  "fill_qty_in_client_orders wb plan_df a =
     (if \<not> has_col (plan_itemno_col a) plan_df
      then Inl (ValueError (''plan_df missing column: '' @ plan_itemno_col a))
      else if \<not> has_col (plan_qty_col a) plan_df
      then Inl (ValueError (''plan_df missing column: '' @ plan_qty_col a))
      else let qty_map = plan_qty_map plan_df (plan_itemno_col a) (plan_qty_col a)
        in case map_of wb (sheet_name a) of
             None \<Rightarrow> Inl (ValueError (''Sheet not found: '' @ sheet_name a))
           | Some ws \<Rightarrow>
              (case find_header ws (header_row a) (sheet_itemno_header a) of
                 Inl e \<Rightarrow> Inl e
               | Inr col_item \<Rightarrow>
                  (case find_header ws (header_row a) (sheet_qty_header a) of
                     Inl e \<Rightarrow> Inl e
                   | Inr col_qty \<Rightarrow>
                      (case fill_rows qty_map col_item col_qty [start_row a .. max_row ws]
                              \<lparr>sheet = ws, filled = 0, not_matched = 0, unmatched = []\<rparr> of
                         Inl e \<Rightarrow> Inl e
                       | Inr st \<Rightarrow>
                           Inr (map (\<lambda>(n, s). if n = sheet_name a then (n, sheet st) else (n, s)) wb,
                                filled st, not_matched st, unmatched st)))))"

definition fill_plan_example :: table where
  "fill_plan_example =
     \<lparr>cols = [''Item No.'', ''Final Qty''],
      rows = [(\<lambda>_. CNaN)(''Item No.'' := CStr ''00123'', ''Final Qty'' := CInt 5),
              (\<lambda>_. CNaN)(''Item No.'' := CStr ''00123'', ''Final Qty'' := CInt 0),
              (\<lambda>_. CNaN)(''Item No.'' := CStr ''00456'', ''Final Qty'' := CInt 7)]\<rparr>"

definition fill_sheet_example :: worksheet where
  "fill_sheet_example =
     \<lparr>max_row = 5, max_column = 2,
      value_at = (\<lambda>_. CNone)((2, 1) := CStr ''Item No.'', (2, 2) := CStr ''Qty'',
                              (3, 1) := CStr ''123'', (4, 1) := CStr ''999'')\<rparr>"

definition fill_args_example :: fill_args where
  "fill_args_example =
     \<lparr>plan_itemno_col = ''Item No.'', plan_qty_col = ''Final Qty'',
      sheet_name = ''Clinet Orders'', header_row = 2, start_row = 3,
      sheet_itemno_header = ''Item No.'', sheet_qty_header = ''Qty''\<rparr>"

section \<open>Planning augmenter (src/planning.py)\<close>

text \<open>
  A cell of a column that takes part in arithmetic: a number, NaN for a missing value,
  and \<open>TypeError\<close> for text or a date.
\<close>

definition as_float :: "cell \<Rightarrow> error + rat option" where
  "as_float c = (if isna c then Inr None
                 else case as_number c of None \<Rightarrow> Inl TypeError | Some x \<Rightarrow> Inr (Some x))"

text \<open>
  \<open>(pd.to_numeric(out["Plan Qty Input"], errors="coerce") / out["Monthly Demand"]).round(1)\<close>
  followed by the replacement of the infinities by NaN and of NaN by 0: the two
  assignments to the column are one statement here, the infinities never leave it.
  pandas divides only where both operands are present.
\<close>

definition months_covered :: "row \<Rightarrow> error + cell" where
  "months_covered r =
     (case to_numeric (r ''Plan Qty Input'') of
        None \<Rightarrow> Inr (CFlt 0)
      | Some q \<Rightarrow>
          (case as_float (r ''Monthly Demand'') of
             Inl e \<Rightarrow> Inl e
           | Inr None \<Rightarrow> Inr (CFlt 0)
           | Inr (Some md) \<Rightarrow> Inr (CFlt (if md = 0 then 0 else round1 (q / md)))))"

definition qty_needed :: "row \<Rightarrow> error + cell" where
  "qty_needed r =
     (case to_numeric (r ''Plan Months Input'') of
        None \<Rightarrow> Inr CNaN
      | Some pm \<Rightarrow>
          (case as_float (r ''Monthly Demand'') of
             Inl e \<Rightarrow> Inl e
           | Inr None \<Rightarrow> Inr CNaN
           | Inr (Some md) \<Rightarrow> Inr (CFlt (of_int (rint (pm * md))))))"

text \<open>\<open>out["Start Date"] + pd.to_timedelta(days_int, unit="D")\<close> with
  \<open>days_int = out["Total Coverage Days"].round(0).fillna(0).astype(int)\<close>; a date is a
  day number, so adding days is adding integers.\<close>

definition end_date :: "row \<Rightarrow> error + cell" where
  "end_date r =
     (if r ''Total Coverage Days'' = CNaN
      then Inr (CDate (case r ''Start Date'' of CDate d \<Rightarrow> d | _ \<Rightarrow> 0))
      else case as_number (r ''Total Coverage Days'') of
             None \<Rightarrow> Inl TypeError
           | Some x \<Rightarrow> Inr (CDate ((case r ''Start Date'' of CDate d \<Rightarrow> d | _ \<Rightarrow> 0) + rint x)))"

definition add_planning_columns_body :: "int \<Rightarrow> int \<Rightarrow> stmt list" where
  "add_planning_columns_body start_date wd =
     [Rebind Inr,
      Assign (\<lambda>out. Inr (if \<not> has_col ''Plan Qty Input'' out
                          then assign ''Plan Qty Input'' (\<lambda>r. CNaN) out else out)),
      Assign (\<lambda>out. Inr (if \<not> has_col ''Plan Months Input'' out
                          then assign ''Plan Months Input'' (\<lambda>r. CNaN) out else out)),
      Assign (\<lambda>out. if \<not> has_col ''Monthly Demand'' out then Inl (KeyError ''Monthly Demand'')
                     else assignE ''Months Covered by Plan Qty'' months_covered out),
      Assign (\<lambda>out. if \<not> has_col ''Monthly Demand'' out then Inl (KeyError ''Monthly Demand'')
                     else assignE ''Qty Needed for Plan Months'' qty_needed out),
      Assign (\<lambda>out. Inr (assign ''Qty Needed for Plan Months''
                (\<lambda>r. CInt (rint (fillna 0 (to_numeric (r ''Qty Needed for Plan Months''))))) out)),
      Assign (\<lambda>out. Inr (assign ''Start Date'' (\<lambda>r. CDate start_date) out)),
      Assign (\<lambda>out. if \<not> has_col ''Total Coverage Days'' out
                     then Inl (KeyError ''Total Coverage Days'')
                     else assignE ''End Date'' end_date out),
      Assign Inr,
      Assign Inr]"

definition add_planning_columns :: "table \<Rightarrow> int \<Rightarrow> int \<Rightarrow> error + table" where
  "add_planning_columns df start_date wd =
     run (add_planning_columns_body start_date wd) df"

section \<open>DataFrames as objects\<close>

text \<open>
  The store of DataFrame objects: the table of every reference, and the next free
  reference. Executing a function body on the object a variable refers to writes every
  \<open>Assign\<close> into that object and gives every \<open>Rebind\<close> a fresh one; an exception
  leaves the store as it is at that point.
\<close>

record heap =
  frames :: "nat \<Rightarrow> table"
  next_ref :: nat

fun exec :: "stmt list \<Rightarrow> nat \<Rightarrow> heap \<Rightarrow> (error + nat) \<times> heap" where
  "exec [] cur h = (Inr cur, h)"
| "exec (Assign f # ss) cur h =
     (case f (frames h cur) of
        Inl e \<Rightarrow> (Inl e, h)
      | Inr t \<Rightarrow> exec ss cur (h\<lparr>frames := (frames h)(cur := t)\<rparr>))"
| "exec (Rebind f # ss) cur h =
     (case f (frames h cur) of
        Inl e \<Rightarrow> (Inl e, h)
      | Inr t \<Rightarrow> exec ss (next_ref h)
                  (h\<lparr>frames := (frames h)(next_ref h := t), next_ref := Suc (next_ref h)\<rparr>))"

definition heap_example :: heap where
  "heap_example =
     \<lparr>frames = (\<lambda>r. if r = 0 then metrics_example else if r = 1 then alerts_example
                       else plan_example),
      next_ref = 3\<rparr>"

section \<open>Lemmas about the library operations\<close>

lemma mapE_Inr:
  "mapE f xs = Inr ys \<Longrightarrow> length ys = length xs \<and> (\<forall>i < length xs. f (xs ! i) = Inr (ys ! i))"
proof (induction xs arbitrary: ys)
  case Nil
  then show ?case by simp
next
  case (Cons x xs)
  from Cons.prems obtain y ys' where fx: "f x = Inr y" and m: "mapE f xs = Inr ys'"
    and ys: "ys = y # ys'"
    by (auto split: sum.splits)
  from Cons.IH [OF m] have len: "length ys' = length xs"
    and nth: "\<forall>i < length xs. f (xs ! i) = Inr (ys' ! i)" by simp_all
  show ?case using fx len nth ys by (auto simp: nth_Cons split: nat.splits)
qed

lemma assignE_Inr:
  assumes "assignE c f t = Inr t'"
  shows "cols t' = add_col c (cols t)"
    and "length (rows t') = length (rows t)"
    and "i < length (rows t) \<Longrightarrow> \<exists>v. f (rows t ! i) = Inr v \<and> rows t' ! i = (rows t ! i)(c := v)"
proof -
  from assms obtain rs where
    m: "mapE (\<lambda>r. case f r of Inl e \<Rightarrow> Inl e | Inr v \<Rightarrow> Inr (r(c := v))) (rows t) = Inr rs"
    and t': "t' = t\<lparr>cols := add_col c (cols t), rows := rs\<rparr>"
    by (auto simp: assignE_def split: sum.splits)
  from mapE_Inr [OF m] have len: "length rs = length (rows t)"
    and nth: "\<forall>i < length (rows t).
       (case f (rows t ! i) of Inl e \<Rightarrow> Inl e | Inr v \<Rightarrow> Inr ((rows t ! i)(c := v))) = Inr (rs ! i)"
    by simp_all
  show "cols t' = add_col c (cols t)" using t' by simp
  show "length (rows t') = length (rows t)" using t' len by simp
  show "\<exists>v. f (rows t ! i) = Inr v \<and> rows t' ! i = (rows t ! i)(c := v)" if "i < length (rows t)"
  proof -
    from nth that have
      h: "(case f (rows t ! i) of Inl e \<Rightarrow> Inl e | Inr v \<Rightarrow> Inr ((rows t ! i)(c := v))) = Inr (rs ! i)"
      by blast
    then obtain v where "f (rows t ! i) = Inr v" and "rs ! i = (rows t ! i)(c := v)"
      by (cases "f (rows t ! i)") auto
    then show ?thesis using t' by simp
  qed
qed

lemma add_col_mem: "x \<in> set (add_col c cs) \<longleftrightarrow> x = c \<or> x \<in> set cs"
  by (auto simp: add_col_def)


lemma rows_assign: "rows (assign c f t) = map (\<lambda>r. r(c := f r)) (rows t)"
  by (simp add: assign_def)


lemma rint_of_int: "rint (of_int n) = n"
  by (simp add: rint_def)

lemma rint_nonneg: "0 \<le> y \<Longrightarrow> 0 \<le> rint y"
  by (auto simp: rint_def Let_def)

lemma round1_nonneg: "0 \<le> x \<Longrightarrow> 0 \<le> round1 x"
  by (simp add: round1_def rint_nonneg)

lemma round1_tenths: "round1 (of_int n / 10) = of_int n / 10"
  by (simp add: round1_def rint_of_int)

lemma round1_add_round1: "round1 (round1 x + round1 y) = round1 x + round1 y"
proof -
  have "round1 x + round1 y = of_int (rint (x * 10) + rint (y * 10)) / 10"
    by (simp add: round1_def add_divide_distrib)
  then show ?thesis by (simp only: round1_tenths)
qed

section \<open>Properties of the alert classifier\<close>

text \<open>
  Claim C4. For every coverage-day value \<open>d\<close>, whether the cell holds it as a float or as
  an integer, the product alert is RED below 7, ORANGE from 7 and below 21, YELLOW from
  21 and below 60 and GREEN from 60 on; the customer alert is RED below 5, ORANGE from 5
  and below 10, YELLOW from 10 and below 20 and GREEN from 20 on. A value on a boundary
  is in the better tier. A missing value (NaN or \<open>None\<close>) gives the empty alert.
\<close>

theorem alert_tiers:
  "(isna c \<longrightarrow> product_alert c = Inr '''' \<and> cust_alert c = Inr '''') \<and>
   (as_number c = Some d \<longrightarrow>
      product_alert c =
        Inr (if d < 7 then ''RED''
             else if 7 \<le> d \<and> d < 21 then ''ORANGE''
             else if 21 \<le> d \<and> d < 60 then ''YELLOW''
             else ''GREEN'') \<and>
      (60 \<le> d \<longrightarrow> product_alert c = Inr ''GREEN'') \<and>
      cust_alert c =
        Inr (if d < 5 then ''RED''
             else if 5 \<le> d \<and> d < 10 then ''ORANGE''
             else if 10 \<le> d \<and> d < 20 then ''YELLOW''
             else ''GREEN'') \<and>
      (20 \<le> d \<longrightarrow> cust_alert c = Inr ''GREEN''))"
  by (cases c) (auto simp: product_alert_def cust_alert_def isna_def)

theorem alert_tiers_witness:
  "product_alert (CInt 3) = Inr ''RED'' \<and> cust_alert (CInt 3) = Inr ''RED'' \<and>
   product_alert (CInt 7) = Inr ''ORANGE'' \<and> cust_alert (CInt 5) = Inr ''ORANGE'' \<and>
   product_alert (CFlt 21) = Inr ''YELLOW'' \<and> cust_alert (CFlt 10) = Inr ''YELLOW'' \<and>
   product_alert (CFlt 60) = Inr ''GREEN'' \<and> cust_alert (CFlt 20) = Inr ''GREEN'' \<and>
   product_alert CNaN = Inr '''' \<and> cust_alert CNone = Inr ''''"
  using alert_tiers [of "CInt 3" 3] alert_tiers [of "CInt 7" 7] alert_tiers [of "CInt 5" 5]
    alert_tiers [of "CFlt 21" 21] alert_tiers [of "CFlt 10" 10] alert_tiers [of "CFlt 60" 60]
    alert_tiers [of "CFlt 20" 20] alert_tiers [of CNaN 0] alert_tiers [of CNone 0]
  by (simp add: isna_def)

text \<open>
  Claim C7. An item whose item number, reduced to its digits without leading zeros, is in
  the exclusion set has an empty customer alert whatever its customer stock days, and
  its product alert is the value the product classifier gives. The rows that are not
  excluded keep the customer classifier's value, no other column of any row changes,
  and the exclusion step itself changes no cell outside the customer alert column.
\<close>

theorem exclusion_blanks_cust_alert_only:
  assumes ok: "add_alerts (Some df) = Inr (Some out)"
    and i: "i < length (rows df)"
  shows "length (rows out) = length (rows df) \<and>
    (\<exists>a. product_alert ((rows df ! i) ''Total Coverage Days'') = Inr a \<and>
         (rows out ! i) ''Product Alert'' = CStr a) \<and>
    (has_col ''Item No.'' df \<and> digits_only ((rows df ! i) ''Item No.'') \<in> set CUST_ALERT_EXCLUDE_ITEMNOS
       \<longrightarrow> (rows out ! i) ''CUST Alert'' = CStr '''') \<and>
    (\<not> (has_col ''Item No.'' df \<and> digits_only ((rows df ! i) ''Item No.'') \<in> set CUST_ALERT_EXCLUDE_ITEMNOS)
       \<longrightarrow> (\<exists>a. cust_alert ((rows df ! i) ''CUST Stock Days'') = Inr a \<and>
            (rows out ! i) ''CUST Alert'' = CStr a)) \<and>
    (\<forall>c. c \<noteq> ''Product Alert'' \<and> c \<noteq> ''CUST Alert'' \<longrightarrow> (rows out ! i) c = (rows df ! i) c) \<and>
    (\<forall>t j c. j < length (rows t) \<and> c \<noteq> ''CUST Alert'' \<longrightarrow>
        (rows (apply_exclusions t) ! j) c = (rows t ! j) c)"
proof -
  from ok obtain t1 t2 where
    a1: "assignE ''Product Alert'' (apply_alert product_alert ''Total Coverage Days'') df = Inr t1"
    and a2: "assignE ''CUST Alert'' (apply_alert cust_alert ''CUST Stock Days'') t1 = Inr t2"
    and out: "out = apply_exclusions t2"
    by (auto simp: add_alerts_def add_alerts_body_def split: sum.splits if_splits)
  have l1: "length (rows t1) = length (rows df)" using assignE_Inr(2) [OF a1] .
  have l2: "length (rows t2) = length (rows df)" using assignE_Inr(2) [OF a2] l1 by simp
  from assignE_Inr(3) [OF a1 i] obtain v1 where
    v1: "apply_alert product_alert ''Total Coverage Days'' (rows df ! i) = Inr v1"
    and r1: "rows t1 ! i = (rows df ! i)(''Product Alert'' := v1)" by blast
  from i l1 have i1: "i < length (rows t1)" by simp
  from assignE_Inr(3) [OF a2 i1] obtain v2 where
    v2: "apply_alert cust_alert ''CUST Stock Days'' (rows t1 ! i) = Inr v2"
    and r2: "rows t2 ! i = (rows t1 ! i)(''CUST Alert'' := v2)" by blast
  from v1 obtain a where pa: "product_alert ((rows df ! i) ''Total Coverage Days'') = Inr a"
    and v1a: "v1 = CStr a" by (auto simp: apply_alert_def split: sum.splits)
  from v2 r1 obtain b where cb: "cust_alert ((rows df ! i) ''CUST Stock Days'') = Inr b"
    and v2b: "v2 = CStr b" by (auto simp: apply_alert_def split: sum.splits)
  have c2: "has_col ''Item No.'' t2 = has_col ''Item No.'' df"
    using assignE_Inr(1) [OF a1] assignE_Inr(1) [OF a2] by (simp add: has_col_def add_col_mem)
  have i2: "i < length (rows t2)" using i l2 by simp
  have item: "(rows t2 ! i) ''Item No.'' = (rows df ! i) ''Item No.''" using r1 r2 by simp
  have frame: "(rows (apply_exclusions t) ! j) c = (rows t ! j) c"
    if "j < length (rows t)" "c \<noteq> ''CUST Alert''" for t j c
    using that by (simp add: apply_exclusions_def exclude_row_def)
  have c1: "length (rows out) = length (rows df)" using out l2 by (simp add: apply_exclusions_def)
  have c2': "(rows out ! i) ''Product Alert'' = CStr a"
    using out i2 r1 r2 v1a by (simp add: apply_exclusions_def exclude_row_def)
  have c3: "(rows out ! i) ''CUST Alert'' = CStr ''''"
    if "has_col ''Item No.'' df \<and> digits_only ((rows df ! i) ''Item No.'') \<in> set CUST_ALERT_EXCLUDE_ITEMNOS"
    using that out i2 c2 item by (simp add: apply_exclusions_def exclude_row_def)
  have c4: "(rows out ! i) ''CUST Alert'' = CStr b"
    if "\<not> (has_col ''Item No.'' df \<and> digits_only ((rows df ! i) ''Item No.'') \<in> set CUST_ALERT_EXCLUDE_ITEMNOS)"
    using that out i2 c2 item r2 v2b by (auto simp: apply_exclusions_def exclude_row_def)
  have c5: "(rows out ! i) c = (rows df ! i) c" if "c \<noteq> ''Product Alert'' \<and> c \<noteq> ''CUST Alert''" for c
    using that out i2 r1 r2 by (simp add: apply_exclusions_def exclude_row_def)
  show ?thesis
  proof (intro conjI allI impI)
    show "length (rows out) = length (rows df)" by (rule c1)
    show "\<exists>a. product_alert ((rows df ! i) ''Total Coverage Days'') = Inr a \<and>
         (rows out ! i) ''Product Alert'' = CStr a" using pa c2' by blast
    show "(rows out ! i) ''CUST Alert'' = CStr ''''"
      if "has_col ''Item No.'' df \<and> digits_only ((rows df ! i) ''Item No.'') \<in> set CUST_ALERT_EXCLUDE_ITEMNOS"
      using c3 that by blast
    show "\<exists>a. cust_alert ((rows df ! i) ''CUST Stock Days'') = Inr a \<and>
            (rows out ! i) ''CUST Alert'' = CStr a"
      if "\<not> (has_col ''Item No.'' df \<and> digits_only ((rows df ! i) ''Item No.'') \<in> set CUST_ALERT_EXCLUDE_ITEMNOS)"
      using c4 [OF that] cb by blast
    show "(rows out ! i) c = (rows df ! i) c" if "c \<noteq> ''Product Alert'' \<and> c \<noteq> ''CUST Alert''" for c
      using c5 that by blast
    show "(rows (apply_exclusions t) ! j) c = (rows t ! j) c"
      if "j < length (rows t) \<and> c \<noteq> ''CUST Alert''" for t j c
      using frame that by blast
  qed
qed

theorem exclusion_blanks_cust_alert_only_witness:
  "\<exists>out. add_alerts (Some alerts_example) = Inr (Some out) \<and>
     (rows out ! 0) ''CUST Alert'' = CStr '''' \<and>
     (rows out ! 0) ''Product Alert'' = CStr ''RED'' \<and>
     (rows out ! 0) ''CUST Stock Days'' = CFlt 0"
proof -
  have "case add_alerts (Some alerts_example) of Inr (Some out) \<Rightarrow> True | _ \<Rightarrow> False"
    by code_simp
  then obtain out where ok: "add_alerts (Some alerts_example) = Inr (Some out)"
    by (auto split: sum.splits option.splits)
  have i: "0 < length (rows alerts_example)" by (simp add: alerts_example_def)
  have ex: "has_col ''Item No.'' alerts_example \<and>
      digits_only ((rows alerts_example ! 0) ''Item No.'') \<in> set CUST_ALERT_EXCLUDE_ITEMNOS"
    by code_simp
  have pa: "product_alert ((rows alerts_example ! 0) ''Total Coverage Days'') = Inr ''RED''"
    by (simp add: alerts_example_def product_alert_def isna_def)
  have cs: "(rows alerts_example ! 0) ''CUST Stock Days'' = CFlt 0"
    by (simp add: alerts_example_def)
  note th = exclusion_blanks_cust_alert_only [OF ok i]
  from th [THEN conjunct2, THEN conjunct1] pa
  have c1: "(rows out ! 0) ''Product Alert'' = CStr ''RED''" by auto
  from th [THEN conjunct2, THEN conjunct2, THEN conjunct1] ex
  have c2: "(rows out ! 0) ''CUST Alert'' = CStr ''''" by blast
  from th [THEN conjunct2, THEN conjunct2, THEN conjunct2, THEN conjunct2, THEN conjunct1]
  have "(rows out ! 0) ''CUST Stock Days'' = (rows alerts_example ! 0) ''CUST Stock Days''"
    by simp
  with cs have c3: "(rows out ! 0) ''CUST Stock Days'' = CFlt 0" by simp
  from ok c1 c2 c3 show ?thesis by blast
qed

section \<open>Properties of the metrics deriver\<close>

text \<open>
  Claim C5, as the code has it. In every output row the total coverage days are the sum
  of the two day columns of the output, each the input cell read as a number (0 when
  it does not parse) and rounded to one decimal. Nothing clamps the sum: it is
  non-negative when both inputs are.
\<close>

theorem total_coverage_days_sum:
  assumes ok: "compute_metrics_qty_based df wd monthly_demand_col mpi_qty_col
                 cust_qty_col total_qty_col mpi_days_col cust_days_col = Inr out"
    and i: "i < length (rows df)"
    and n1: "mpi_days_col \<notin> set [''Monthly Demand'', ''Daily Demand'', ''MPI Stock Qty'',
                ''CUST Stock Qty'', ''Stock'']"
    and n2: "cust_days_col \<notin> set [''Monthly Demand'', ''Daily Demand'', ''MPI Stock Qty'',
                ''CUST Stock Qty'', ''Stock'', ''MPI Stock days'']"
  shows "length (rows out) = length (rows df) \<and>
    (rows out ! i) ''MPI Stock days''
       = CFlt (round1 (fillna 0 (to_numeric ((rows df ! i) mpi_days_col)))) \<and>
    (rows out ! i) ''CUST Stock Days''
       = CFlt (round1 (fillna 0 (to_numeric ((rows df ! i) cust_days_col)))) \<and>
    (rows out ! i) ''Total Coverage Days''
       = CFlt (round1 (fillna 0 (to_numeric ((rows df ! i) mpi_days_col)))
               + round1 (fillna 0 (to_numeric ((rows df ! i) cust_days_col)))) \<and>
    (0 \<le> fillna 0 (to_numeric ((rows df ! i) mpi_days_col)) \<and>
     0 \<le> fillna 0 (to_numeric ((rows df ! i) cust_days_col)) \<longrightarrow>
       0 \<le> num_of ((rows out ! i) ''Total Coverage Days''))"
proof -
  let ?a = "round1 (fillna 0 (to_numeric ((rows df ! i) mpi_days_col)))"
  let ?b = "round1 (fillna 0 (to_numeric ((rows df ! i) cust_days_col)))"
  from ok have out: "out =
     assign ''Total Coverage Month''
         (\<lambda>r. CFlt (round1 (num_of (r ''Total Coverage Days'') / of_int wd)))
      (assign ''Total Coverage Days''
         (\<lambda>r. CFlt (round1 (num_of (r ''MPI Stock days'') + num_of (r ''CUST Stock Days''))))
      (assign ''CUST Stock Days'' (\<lambda>r. days_cell (r cust_days_col))
      (assign ''MPI Stock days'' (\<lambda>r. days_cell (r mpi_days_col))
      (assign ''Stock'' (\<lambda>r. qty_cell (r total_qty_col))
      (assign ''CUST Stock Qty'' (\<lambda>r. qty_cell (r cust_qty_col))
      (assign ''MPI Stock Qty'' (\<lambda>r. qty_cell (r mpi_qty_col))
      (assign ''Daily Demand''
         (\<lambda>r. CInt (rint (num_of (r ''Monthly Demand'') / of_int wd)))
      (assign ''Monthly Demand'' (\<lambda>r. qty_cell (r monthly_demand_col)) df))))))))"
    unfolding compute_metrics_qty_based_def compute_metrics_qty_based_body_def need_col_def
    by (simp split: if_splits)
  have len: "length (rows out) = length (rows df)"
    unfolding out by (simp add: rows_assign)
  have m: "(rows out ! i) ''MPI Stock days'' = CFlt ?a"
    unfolding out using i n1 n2 by (simp add: rows_assign days_cell_def)
  have c: "(rows out ! i) ''CUST Stock Days'' = CFlt ?b"
    unfolding out using i n1 n2 by (simp add: rows_assign days_cell_def)
  have t: "(rows out ! i) ''Total Coverage Days'' = CFlt (round1 (?a + ?b))"
    unfolding out using i n1 n2 by (simp add: rows_assign days_cell_def num_of_def)
  have t': "(rows out ! i) ''Total Coverage Days'' = CFlt (?a + ?b)"
    using t by (simp only: round1_add_round1)
  have nn: "0 \<le> num_of ((rows out ! i) ''Total Coverage Days'')"
    if "0 \<le> fillna 0 (to_numeric ((rows df ! i) mpi_days_col)) \<and>
        0 \<le> fillna 0 (to_numeric ((rows df ! i) cust_days_col))"
    using that t' by (simp add: num_of_def round1_nonneg)
  show ?thesis using len m c t' nn by (intro conjI impI)
qed

theorem total_coverage_days_sum_witness:
  "\<exists>out. compute_metrics_qty_based metrics_example 26 ''Min Stock / M.D.'' ''MPI Stock''
      ''CUST Stock'' ''Total Stock'' ''MPI Stock days'' ''CUST Stock Days'' = Inr out \<and>
     (rows out ! 0) ''Total Coverage Days'' = CFlt 4 \<and>
     0 \<le> num_of ((rows out ! 0) ''Total Coverage Days'')"
proof -
  have r2: "rint 2600 = 2600" "rint 0 = 0" "rint 40 = 40" "rint (2600 / 26) = 100"
    by code_simp+
  have "case compute_metrics_qty_based metrics_example 26 ''Min Stock / M.D.'' ''MPI Stock''
      ''CUST Stock'' ''Total Stock'' ''MPI Stock days'' ''CUST Stock Days'' of
        Inr out \<Rightarrow> True | Inl e \<Rightarrow> False"
    by (simp add: compute_metrics_qty_based_def compute_metrics_qty_based_body_def
      metrics_example_def need_col_def has_col_def assign_def add_col_def)
  then obtain out where ok: "compute_metrics_qty_based metrics_example 26 ''Min Stock / M.D.''
      ''MPI Stock'' ''CUST Stock'' ''Total Stock'' ''MPI Stock days'' ''CUST Stock Days'' = Inr out"
    by (auto split: sum.splits)
  have i: "0 < length (rows metrics_example)" by (simp add: metrics_example_def)
  have a: "round1 (fillna 0 (to_numeric ((rows metrics_example ! 0) ''MPI Stock days''))) = 5 / 2"
    by code_simp
  have b: "round1 (fillna 0 (to_numeric ((rows metrics_example ! 0) ''CUST Stock Days''))) = 3 / 2"
    by code_simp
  note th = total_coverage_days_sum [OF ok i]
  have t: "(rows out ! 0) ''Total Coverage Days'' = CFlt 4"
    using th [THEN conjunct2, THEN conjunct2, THEN conjunct2, THEN conjunct1] a b by simp
  then have "0 \<le> num_of ((rows out ! 0) ''Total Coverage Days'')" by (simp add: num_of_def)
  with ok t show ?thesis by blast
qed

text \<open>
  The claim as stated fails: with \<open>-5\<close> MPI stock days and \<open>1.5\<close> customer stock
  days the total coverage days are \<open>-3.5\<close>.
\<close>

theorem total_coverage_days_negative:
  "cell_at (compute_metrics_qty_based metrics_negative_example 26 ''Min Stock / M.D.'' ''MPI Stock''
      ''CUST Stock'' ''Total Stock'' ''MPI Stock days'' ''CUST Stock Days'') 0
      ''Total Coverage Days'' = Inr (CFlt (- (7 / 2))) \<and> - (7 / 2) < (0 :: rat)"
proof -
  have r1: "round1 (- 5) = - 5" "round1 (3 / 2) = 3 / 2" "round1 (- (7 / 2)) = - (7 / 2)"
    by code_simp+
  have r2: "rint 2600 = 2600" "rint 0 = 0" "rint 40 = 40" "rint (2600 / 26) = 100"
    by code_simp+
  show ?thesis
    by (simp add: cell_at_def compute_metrics_qty_based_def compute_metrics_qty_based_body_def
      metrics_negative_example_def need_col_def has_col_def assign_def add_col_def days_cell_def
      qty_cell_def fillna_def to_numeric_def num_of_def r1 r2)
qed

section \<open>Properties of the demand classifier\<close>

text \<open>
  Claim C3. The classifier reads every demand value as a number (0 when it does not
  parse), takes the cut points p90, p70, p40 and p15 as quantiles of the values strictly
  greater than 0 only, and classifies every value, zeros included, by the first cut point
  it reaches: VERY_HIGH, HIGH, MEDIUM, LOW, and VERY_LOW below all of them. When no
  value is positive every row is VERY_LOW.
\<close>

theorem classify_by_percentiles_cut_points:
  "length (classify_by_percentiles md) = length md \<and>
   (\<forall>i < length md.
      classify_by_percentiles md ! i =
        (let s = map (\<lambda>c. fillna 0 (to_numeric c)) md;
             nz = filter (\<lambda>v. 0 < v) s;
             v = s ! i
         in if nz = [] then ''VERY_LOW''
            else if quantile nz (9 / 10) \<le> v then ''VERY_HIGH''
            else if quantile nz (7 / 10) \<le> v then ''HIGH''
            else if quantile nz (4 / 10) \<le> v then ''MEDIUM''
            else if quantile nz (15 / 100) \<le> v then ''LOW''
            else ''VERY_LOW''))"
proof (intro conjI allI impI)
  show "length (classify_by_percentiles md) = length md"
    by (simp add: classify_by_percentiles_def Let_def)
next
  fix i assume i: "i < length md"
  show "classify_by_percentiles md ! i =
        (let s = map (\<lambda>c. fillna 0 (to_numeric c)) md;
             nz = filter (\<lambda>v. 0 < v) s;
             v = s ! i
         in if nz = [] then ''VERY_LOW''
            else if quantile nz (9 / 10) \<le> v then ''VERY_HIGH''
            else if quantile nz (7 / 10) \<le> v then ''HIGH''
            else if quantile nz (4 / 10) \<le> v then ''MEDIUM''
            else if quantile nz (15 / 100) \<le> v then ''LOW''
            else ''VERY_LOW'')"
  proof (cases "filter (\<lambda>v. 0 < v) (map (\<lambda>c. fillna 0 (to_numeric c)) md) = []")
    case True
    then show ?thesis using i
      by (simp add: classify_by_percentiles_def Let_def del: filter_map filter_empty_conv)
  next
    case False
    then show ?thesis using i
      by (simp add: classify_by_percentiles_def Let_def cls_def del: filter_map filter_empty_conv)
  qed
qed

theorem classify_by_percentiles_cut_points_witness:
  "classify_by_percentiles demand_example ! 3 = ''MEDIUM'' \<and>
   classify_by_percentiles demand_example ! 1 = ''VERY_LOW'' \<and>
   classify_by_percentiles [CInt 0, CNaN] ! 0 = ''VERY_LOW''"
proof -
  have a: "(3::nat) < length demand_example" "(1::nat) < length demand_example"
    by (simp_all add: demand_example_def)
  have b: "(0::nat) < length [CInt 0, CNaN]" by simp
  note A = classify_by_percentiles_cut_points [of demand_example, THEN conjunct2, rule_format, OF a(1)]
  note B = classify_by_percentiles_cut_points [of demand_example, THEN conjunct2, rule_format, OF a(2)]
  note C = classify_by_percentiles_cut_points [of "[CInt 0, CNaN]", THEN conjunct2, rule_format, OF b]
  have "classify_by_percentiles demand_example ! 3 = ''MEDIUM''"
    unfolding A by code_simp
  moreover have "classify_by_percentiles demand_example ! 1 = ''VERY_LOW''"
    unfolding B by code_simp
  moreover have "classify_by_percentiles [CInt 0, CNaN] ! 0 = ''VERY_LOW''"
    unfolding C by code_simp
  ultimately show ?thesis by simp
qed

section \<open>Lemmas about the production plan builder\<close>





lemma explode_returns: "\<exists>t1. run (explode_stmts p) t = Inr t1"
  by (simp add: explode_stmts_def)


lemma target_returns: "\<exists>t2. run (target_stmts p) t = Inr t2"
  by (simp add: target_stmts_def)




















section \<open>Properties of the production plan builder\<close>












section \<open>Lemmas about the template fill\<close>

lemma foldl_dict: "foldl (\<lambda>m (k, v). m(k \<mapsto> v)) m0 kvs = m0 ++ map_of (rev kvs)"
proof (induction kvs arbitrary: m0)
  case Nil
  then show ?case by simp
next
  case (Cons kv kvs)
  obtain k v where kv: "kv = (k, v)" by (cases kv)
  have "foldl (\<lambda>m (k, v). m(k \<mapsto> v)) m0 (kv # kvs)
      = foldl (\<lambda>m (k, v). m(k \<mapsto> v)) (m0(k \<mapsto> v)) kvs"
    by (simp add: kv)
  also have "\<dots> = (m0(k \<mapsto> v)) ++ map_of (rev kvs)" by (rule Cons.IH)
  also have "\<dots> = m0 ++ map_of (rev (kv # kvs))"
    by (rule ext) (auto simp: kv map_add_def split: option.splits)
  finally show ?case .
qed

lemma dict_of_rev: "dict_of kvs = map_of (rev kvs)"
  by (simp add: dict_of_def foldl_dict)

lemma dict_of_last:
  assumes "k \<notin> fst ` set after"
  shows "dict_of (before @ [(k, v)] @ after) k = Some v"
  using assms by (simp add: dict_of_rev map_add_Some_iff map_of_eq_None_iff)


lemma plan_qty_map_pairs:
  assumes "ic \<noteq> qc"
  shows "plan_qty_map df ic qc =
     dict_of (map (\<lambda>r. (CStr (digits_key (r ic)), fillna 0 (to_numeric (r qc)))) (rows df))"
  using assms by (simp add: plan_qty_map_def Let_def rows_assign o_def num_of_def)

lemma map_of_replace:
  "map_of wb n = Some ws \<Longrightarrow>
   map_of (map (\<lambda>(n', s). if n' = n then (n', ws') else (n', s)) wb) n = Some ws'"
  by (induction wb) (auto split: if_splits)

lemma fill_rows_spec:
  assumes "fill_rows m ci cq rs st = Inr st'"
    and "distinct rs"
    and "\<forall>r \<in> set rs. value_at (sheet st) (r, ci) = value_at ws0 (r, ci)"
  shows "filled st' = filled st
            + length (filter (\<lambda>r. digits_key (value_at ws0 (r, ci)) \<noteq> []
                 \<and> m (CStr (digits_key (value_at ws0 (r, ci)))) \<noteq> None) rs) \<and>
         not_matched st' = not_matched st
            + length (filter (\<lambda>r. digits_key (value_at ws0 (r, ci)) \<noteq> []
                 \<and> m (CStr (digits_key (value_at ws0 (r, ci)))) = None) rs) \<and>
         unmatched st' = unmatched st
            @ map (\<lambda>r. digits_key (value_at ws0 (r, ci)))
                (filter (\<lambda>r. digits_key (value_at ws0 (r, ci)) \<noteq> []
                 \<and> m (CStr (digits_key (value_at ws0 (r, ci)))) = None) rs) \<and>
         (\<forall>r c. value_at (sheet st') (r, c) =
            (if r \<in> set rs \<and> c = cq \<and> digits_key (value_at ws0 (r, ci)) \<noteq> []
                \<and> m (CStr (digits_key (value_at ws0 (r, ci)))) \<noteq> None
             then CFlt (the (m (CStr (digits_key (value_at ws0 (r, ci))))))
             else value_at (sheet st) (r, c)))"
  using assms
proof (induction rs arbitrary: st)
  case Nil
  then show ?case by simp
next
  case (Cons r rs)
  let ?key = "digits_key (value_at ws0 (r, ci))"
  from Cons.prems(3) have rd: "value_at (sheet st) (r, ci) = value_at ws0 (r, ci)" by simp
  from Cons.prems(2) have nr: "r \<notin> set rs" and d: "distinct rs" by simp_all
  from Cons.prems(1) have r1: "\<not> r < 1" by (auto split: if_splits)
  show ?case
  proof (cases "?key = []")
    case True
    with Cons.prems(1) r1 rd have f: "fill_rows m ci cq rs st = Inr st'" by (simp add: Let_def)
    from Cons.prems(3) have a: "\<forall>r \<in> set rs. value_at (sheet st) (r, ci) = value_at ws0 (r, ci)"
      by simp
    from Cons.IH [OF f d a] True nr show ?thesis by auto
  next
    case False
    show ?thesis
    proof (cases "m (CStr ?key)")
      case None
      let ?st1 = "st\<lparr>not_matched := not_matched st + 1, unmatched := unmatched st @ [?key]\<rparr>"
      from Cons.prems(1) r1 rd False None have f: "fill_rows m ci cq rs ?st1 = Inr st'"
        by (simp add: Let_def)
      from Cons.prems(3) have a: "\<forall>r \<in> set rs. value_at (sheet ?st1) (r, ci) = value_at ws0 (r, ci)"
        by simp
      from Cons.IH [OF f d a] False None nr show ?thesis by auto
    next
      case (Some q)
      let ?st1 = "st\<lparr>sheet := (sheet st)\<lparr>value_at := (value_at (sheet st))((r, cq) := CFlt q)\<rparr>,
                     filled := filled st + 1\<rparr>"
      from Cons.prems(1) r1 rd False Some have f: "fill_rows m ci cq rs ?st1 = Inr st'"
        by (simp add: Let_def)
      from Cons.prems(3) nr
      have a: "\<forall>r \<in> set rs. value_at (sheet ?st1) (r, ci) = value_at ws0 (r, ci)"
        by auto
      from Cons.IH [OF f d a] False Some nr show ?thesis by auto
    qed
  qed
qed

lemma fill_result:
  assumes "fill_qty_in_client_orders wb plan_df a = Inr (wb', n_filled, n_unmatched, keys)"
  shows "\<exists>ws st col_item col_qty.
     map_of wb (sheet_name a) = Some ws \<and> map_of wb' (sheet_name a) = Some (sheet st) \<and>
     find_header ws (header_row a) (sheet_itemno_header a) = Inr col_item \<and>
     find_header ws (header_row a) (sheet_qty_header a) = Inr col_qty \<and>
     fill_rows (plan_qty_map plan_df (plan_itemno_col a) (plan_qty_col a)) col_item col_qty
        [start_row a .. max_row ws] \<lparr>sheet = ws, filled = 0, not_matched = 0, unmatched = []\<rparr>
       = Inr st \<and>
     n_filled = filled st \<and> n_unmatched = not_matched st \<and> keys = unmatched st"
  using assms
  by (auto simp: fill_qty_in_client_orders_def Let_def map_of_replace
      split: if_splits option.splits sum.splits)

lemma fill_example_runs:
  "\<exists>wb'. fill_qty_in_client_orders [(''Clinet Orders'', fill_sheet_example)] fill_plan_example
      fill_args_example = Inr (wb', 1, 1, [''999''])"
proof -
  have "case fill_qty_in_client_orders [(''Clinet Orders'', fill_sheet_example)] fill_plan_example
      fill_args_example of
        Inr (wb', f, n, u) \<Rightarrow> f = 1 \<and> n = 1 \<and> u = [''999''] | Inl e \<Rightarrow> False"
    by code_simp
  then show ?thesis by (auto split: sum.splits prod.splits)
qed

lemma fill_example_facts:
  "sheet_name fill_args_example = ''Clinet Orders''"
  "header_row fill_args_example = 2" "start_row fill_args_example = 3"
  "sheet_itemno_header fill_args_example = ''Item No.''"
  "sheet_qty_header fill_args_example = ''Qty''"
  "plan_itemno_col fill_args_example = ''Item No.''"
  "plan_qty_col fill_args_example = ''Final Qty''"
  "max_row fill_sheet_example = 5"
  by (simp_all add: fill_args_example_def fill_sheet_example_def)

lemma fill_example_leaf:
  "find_header fill_sheet_example 2 ''Item No.'' = Inr 1"
  "find_header fill_sheet_example 2 ''Qty'' = Inr 2"
  "digits_key (value_at fill_sheet_example (3, 1)) = ''123''"
  "plan_qty_map fill_plan_example ''Item No.'' ''Final Qty'' (CStr ''123'') = Some 0"
  by code_simp+

section \<open>Properties of the template fill\<close>



text \<open>
  Claim C10. When several plan rows have the same key, the plan map holds the quantity
  of the last of them in the row order of the plan table, whatever the rows before it
  hold, and that quantity is what the fill writes into the template rows with that key.
\<close>

theorem fill_takes_last_plan_row:
  assumes ok: "fill_qty_in_client_orders wb plan_df a = Inr (wb', n_filled, n_unmatched, keys)"
    and ne: "plan_itemno_col a \<noteq> plan_qty_col a"
    and plan: "rows plan_df = before @ [pr] @ after"
    and last: "\<forall>r' \<in> set after. digits_key (r' (plan_itemno_col a)) \<noteq> digits_key (pr (plan_itemno_col a))"
  shows "plan_qty_map plan_df (plan_itemno_col a) (plan_qty_col a)
             (CStr (digits_key (pr (plan_itemno_col a))))
           = Some (fillna 0 (to_numeric (pr (plan_qty_col a)))) \<and>
    (\<exists>ws ws' col_item col_qty.
       map_of wb (sheet_name a) = Some ws \<and> map_of wb' (sheet_name a) = Some ws' \<and>
       find_header ws (header_row a) (sheet_itemno_header a) = Inr col_item \<and>
       find_header ws (header_row a) (sheet_qty_header a) = Inr col_qty \<and>
       (\<forall>r \<in> set [start_row a .. max_row ws].
           digits_key (value_at ws (r, col_item)) = digits_key (pr (plan_itemno_col a)) \<and>
           digits_key (pr (plan_itemno_col a)) \<noteq> []
           \<longrightarrow> value_at ws' (r, col_qty) = CFlt (fillna 0 (to_numeric (pr (plan_qty_col a))))))"
proof -
  let ?m = "plan_qty_map plan_df (plan_itemno_col a) (plan_qty_col a)"
  let ?k = "digits_key (pr (plan_itemno_col a))"
  let ?pair = "\<lambda>r :: row. (CStr (digits_key (r (plan_itemno_col a))), fillna 0 (to_numeric (r (plan_qty_col a))))"
  have nk: "CStr ?k \<notin> fst ` set (map ?pair after)" using last by auto
  have "?m = dict_of (map ?pair before @ [(CStr ?k, fillna 0 (to_numeric (pr (plan_qty_col a))))]
                      @ map ?pair after)"
    by (simp add: plan_qty_map_pairs [OF ne] plan)
  then have m: "?m (CStr ?k) = Some (fillna 0 (to_numeric (pr (plan_qty_col a))))"
    using dict_of_last [OF nk] by simp
  from fill_result [OF ok] obtain ws st col_item col_qty where
    ws: "map_of wb (sheet_name a) = Some ws" and ws': "map_of wb' (sheet_name a) = Some (sheet st)"
    and ci: "find_header ws (header_row a) (sheet_itemno_header a) = Inr col_item"
    and cq: "find_header ws (header_row a) (sheet_qty_header a) = Inr col_qty"
    and fr: "fill_rows ?m col_item col_qty [start_row a .. max_row ws]
        \<lparr>sheet = ws, filled = 0, not_matched = 0, unmatched = []\<rparr> = Inr st"
    by blast
  have d: "distinct [start_row a .. max_row ws]" by simp
  have same: "\<forall>r \<in> set [start_row a .. max_row ws].
      value_at (sheet \<lparr>sheet = ws, filled = 0, not_matched = 0, unmatched = []\<rparr>) (r, col_item)
        = value_at ws (r, col_item)" by simp
  note sp = fill_rows_spec [OF fr d same]
  have cell: "value_at (sheet st) (r, col_qty) = CFlt (fillna 0 (to_numeric (pr (plan_qty_col a))))"
    if "r \<in> set [start_row a .. max_row ws]"
      "digits_key (value_at ws (r, col_item)) = ?k \<and> ?k \<noteq> []" for r
    using sp [THEN conjunct2, THEN conjunct2, THEN conjunct2, rule_format, of r col_qty] that m
    by simp
  from ws ws' ci cq cell have "\<exists>ws ws' col_item col_qty.
       map_of wb (sheet_name a) = Some ws \<and> map_of wb' (sheet_name a) = Some ws' \<and>
       find_header ws (header_row a) (sheet_itemno_header a) = Inr col_item \<and>
       find_header ws (header_row a) (sheet_qty_header a) = Inr col_qty \<and>
       (\<forall>r \<in> set [start_row a .. max_row ws].
           digits_key (value_at ws (r, col_item)) = ?k \<and> ?k \<noteq> []
           \<longrightarrow> value_at ws' (r, col_qty) = CFlt (fillna 0 (to_numeric (pr (plan_qty_col a)))))"
    by blast
  with m show ?thesis by (rule conjI)
qed

theorem fill_takes_last_plan_row_witness:
  "\<exists>wb' ws'. fill_qty_in_client_orders [(''Clinet Orders'', fill_sheet_example)] fill_plan_example
       fill_args_example = Inr (wb', 1, 1, [''999'']) \<and>
     plan_qty_map fill_plan_example ''Item No.'' ''Final Qty'' (CStr ''123'')
       = Some (fillna 0 (to_numeric (CInt 0))) \<and>
     map_of wb' ''Clinet Orders'' = Some ws' \<and>
     value_at ws' (3, 2) = CFlt (fillna 0 (to_numeric (CInt 0)))"
proof -
  let ?pr = "(\<lambda>_. CNaN)(''Item No.'' := CStr ''00123'', ''Final Qty'' := CInt 0)"
  from fill_example_runs obtain wb' where
    ok: "fill_qty_in_client_orders [(''Clinet Orders'', fill_sheet_example)] fill_plan_example
       fill_args_example = Inr (wb', 1, 1, [''999''])" by blast
  have ne: "plan_itemno_col fill_args_example \<noteq> plan_qty_col fill_args_example"
    by (simp add: fill_example_facts)
  have plan: "rows fill_plan_example =
      [(\<lambda>_. CNaN)(''Item No.'' := CStr ''00123'', ''Final Qty'' := CInt 5)] @ [?pr]
        @ [(\<lambda>_. CNaN)(''Item No.'' := CStr ''00456'', ''Final Qty'' := CInt 7)]"
    by (simp add: fill_plan_example_def)
  have k: "digits_key (CStr ''00123'') = ''123''" "digits_key (CStr ''00456'') = ''456''"
    by code_simp+
  have last: "\<forall>r' \<in> set [(\<lambda>_. CNaN)(''Item No.'' := CStr ''00456'', ''Final Qty'' := CInt 7)].
      digits_key (r' (plan_itemno_col fill_args_example))
        \<noteq> digits_key (?pr (plan_itemno_col fill_args_example))"
    by (simp add: fill_example_facts k)
  note th = fill_takes_last_plan_row [OF ok ne plan last]
  have m: "plan_qty_map fill_plan_example ''Item No.'' ''Final Qty'' (CStr ''123'')
       = Some (fillna 0 (to_numeric (CInt 0)))"
    using th [THEN conjunct1] by (simp add: fill_example_facts k)
  from th [THEN conjunct2] obtain ws ws' col_item col_qty where
    ws: "map_of [(''Clinet Orders'', fill_sheet_example)] (sheet_name fill_args_example) = Some ws"
    and ws': "map_of wb' (sheet_name fill_args_example) = Some ws'"
    and ci: "find_header ws (header_row fill_args_example) (sheet_itemno_header fill_args_example)
        = Inr col_item"
    and cq: "find_header ws (header_row fill_args_example) (sheet_qty_header fill_args_example)
        = Inr col_qty"
    and cells: "\<forall>r \<in> set [start_row fill_args_example .. max_row ws].
        digits_key (value_at ws (r, col_item)) = digits_key (?pr (plan_itemno_col fill_args_example))
        \<and> digits_key (?pr (plan_itemno_col fill_args_example)) \<noteq> []
        \<longrightarrow> value_at ws' (r, col_qty)
              = CFlt (fillna 0 (to_numeric (?pr (plan_qty_col fill_args_example))))"
    by blast
  from ws have w: "ws = fill_sheet_example" by (simp add: fill_example_facts)
  from ci have c1: "col_item = 1" by (simp add: w fill_example_facts fill_example_leaf)
  from cq have c2: "col_qty = 2" by (simp add: w fill_example_facts fill_example_leaf)
  have "value_at ws' (3, 2) = CFlt (fillna 0 (to_numeric (CInt 0)))"
    using cells [rule_format, of 3]
    by (simp add: w c1 c2 fill_example_facts fill_example_leaf k)
  with ok ws' m show ?thesis by (auto simp: fill_example_facts)
qed

section \<open>The functions leave their input table unchanged\<close>

lemma exec_preserves:
  "r < next_ref h \<Longrightarrow> r \<noteq> cur \<Longrightarrow> frames (snd (exec ss cur h)) r = frames h r"
proof (induction ss arbitrary: cur h)
  case Nil
  then show ?case by simp
next
  case (Cons s ss)
  show ?case
  proof (cases s)
    case (Assign f)
    show ?thesis
    proof (cases "f (frames h cur)")
      case (Inl e)
      then show ?thesis using Assign by simp
    next
      case (Inr t)
      have "frames (snd (exec ss cur (h\<lparr>frames := (frames h)(cur := t)\<rparr>))) r
          = frames (h\<lparr>frames := (frames h)(cur := t)\<rparr>) r"
        using Cons.prems by (intro Cons.IH) simp_all
      then show ?thesis using Assign Inr Cons.prems by simp
    qed
  next
    case (Rebind f)
    show ?thesis
    proof (cases "f (frames h cur)")
      case (Inl e)
      then show ?thesis using Rebind by simp
    next
      case (Inr t)
      let ?h = "h\<lparr>frames := (frames h)(next_ref h := t), next_ref := Suc (next_ref h)\<rparr>"
      have "frames (snd (exec ss (next_ref h) ?h)) r = frames ?h r"
        using Cons.prems by (intro Cons.IH) simp_all
      then show ?thesis using Rebind Inr Cons.prems by simp
    qed
  qed
qed

lemma exec_run:
  "exec ss cur h = (res, h') \<Longrightarrow>
     (case run ss (frames h cur) of
        Inl e \<Rightarrow> res = Inl e
      | Inr t \<Rightarrow> \<exists>out. res = Inr out \<and> frames h' out = t \<and> (out = cur \<or> next_ref h \<le> out))"
proof (induction ss arbitrary: cur h)
  case Nil
  then show ?case by auto
next
  case (Cons s ss)
  show ?case
  proof (cases s)
    case (Assign f)
    show ?thesis
    proof (cases "f (frames h cur)")
      case (Inl e)
      then show ?thesis using Assign Cons.prems by auto
    next
      case (Inr t)
      let ?h = "h\<lparr>frames := (frames h)(cur := t)\<rparr>"
      from Cons.prems Assign Inr have "exec ss cur ?h = (res, h')" by simp
      from Cons.IH [OF this] show ?thesis using Assign Inr by (auto split: sum.splits)
    qed
  next
    case (Rebind f)
    show ?thesis
    proof (cases "f (frames h cur)")
      case (Inl e)
      then show ?thesis using Rebind Cons.prems by auto
    next
      case (Inr t)
      let ?h = "h\<lparr>frames := (frames h)(next_ref h := t), next_ref := Suc (next_ref h)\<rparr>"
      from Cons.prems Rebind Inr have "exec ss (next_ref h) ?h = (res, h')" by simp
      from Cons.IH [OF this] show ?thesis using Rebind Inr by (auto split: sum.splits)
    qed
  qed
qed

lemma copy_first_frame:
  assumes df: "df < next_ref h" and ex: "exec (Rebind Inr # ss) df h = (res, h')"
  shows "(\<forall>r < next_ref h. frames h' r = frames h r) \<and>
         (\<forall>out. res = Inr out \<longrightarrow>
            out \<noteq> df \<and> run (Rebind Inr # ss) (frames h df) = Inr (frames h' out))"
proof -
  let ?h = "h\<lparr>frames := (frames h)(next_ref h := frames h df), next_ref := Suc (next_ref h)\<rparr>"
  from ex have ex': "exec ss (next_ref h) ?h = (res, h')" by simp
  have keep: "frames h' r = frames h r" if "r < next_ref h" for r
  proof -
    have "frames (snd (exec ss (next_ref h) ?h)) r = frames ?h r"
      using that by (intro exec_preserves) simp_all
    then show ?thesis using ex' that by simp
  qed
  have new: "out \<noteq> df \<and> run (Rebind Inr # ss) (frames h df) = Inr (frames h' out)"
    if "res = Inr out" for out
  proof -
    from exec_run [OF ex'] that obtain t where r: "run ss (frames h df) = Inr t"
      and o: "frames h' out = t" and w: "out = next_ref h \<or> Suc (next_ref h) \<le> out"
      by (auto split: sum.splits)
    from w df have "out \<noteq> df" by auto
    then show ?thesis using r o by simp
  qed
  from keep new show ?thesis by blast
qed

text \<open>
  Claim C9. The metrics deriver, the alert classifier, the planning augmenter and the
  production plan builder leave their input table unchanged and return a new one: run on
  the object \<open>df\<close> of a store, the body of each of the four leaves the table of
  \<open>df\<close>, and of every other object that existed before the call, as it was, whether
  the call returns or raises; and when it returns, the object returned is not \<open>df\<close>
  and holds the table the function computes from the table of \<open>df\<close>.
\<close>

theorem input_table_unchanged:
  assumes df: "df < next_ref h"
    and B: "B \<in> {compute_metrics_qty_based_body wd monthly_demand_col mpi_qty_col cust_qty_col
                    total_qty_col mpi_days_col cust_days_col,
                 add_alerts_body,
                 add_planning_columns_body start_date wd',
                 build_production_plan_body p}"
    and ex: "exec B df h = (res, h')"
  shows "frames h' df = frames h df \<and> (\<forall>r < next_ref h. frames h' r = frames h r) \<and>
         (\<forall>out. res = Inr out \<longrightarrow> out \<noteq> df \<and> run B (frames h df) = Inr (frames h' out))"
proof -
  from B obtain ss where "B = Rebind Inr # ss"
    by (auto simp: compute_metrics_qty_based_body_def add_alerts_body_def
        add_planning_columns_body_def build_production_plan_body_def)
  with copy_first_frame [OF df, of ss res h'] ex df show ?thesis by blast
qed

theorem input_table_unchanged_witness:
  "(\<exists>res h'. exec (compute_metrics_qty_based_body 26 ''Min Stock / M.D.'' ''MPI Stock''
                      ''CUST Stock'' ''Total Stock'' ''MPI Stock days'' ''CUST Stock Days'')
                  0 heap_example = (res, h') \<and>
       frames h' 0 = metrics_example \<and> frames h' 1 = alerts_example \<and>
       frames h' 2 = plan_example) \<and>
   (\<exists>res h'. exec add_alerts_body 1 heap_example = (res, h') \<and>
       frames h' 0 = metrics_example \<and> frames h' 1 = alerts_example \<and>
       frames h' 2 = plan_example \<and>
       (\<forall>out. res = Inr out \<longrightarrow>
          out \<noteq> 1 \<and> add_alerts (Some alerts_example) = Inr (Some (frames h' out)))) \<and>
   (\<exists>res h'. exec (add_planning_columns_body 0 26) 0 heap_example = (res, h') \<and>
       frames h' 0 = metrics_example \<and> frames h' 1 = alerts_example \<and>
       frames h' 2 = plan_example) \<and>
   (\<exists>res h'. exec (build_production_plan_body plan_example_params) 2 heap_example = (res, h') \<and>
       frames h' 0 = metrics_example \<and> frames h' 1 = alerts_example \<and>
       frames h' 2 = plan_example \<and>
       (\<forall>out. res = Inr out \<longrightarrow>
          out \<noteq> 2 \<and>
          build_production_plan plan_example plan_example_params = Inr (frames h' out)))"
proof -
  let ?M = "compute_metrics_qty_based_body 26 ''Min Stock / M.D.'' ''MPI Stock''
              ''CUST Stock'' ''Total Stock'' ''MPI Stock days'' ''CUST Stock Days''"
  let ?S = "{?M, add_alerts_body, add_planning_columns_body 0 26,
             build_production_plan_body plan_example_params}"
  have n: "(0::nat) < next_ref heap_example" "(1::nat) < next_ref heap_example"
    "(2::nat) < next_ref heap_example"
    by (simp_all add: heap_example_def)
  have f: "frames heap_example 0 = metrics_example" "frames heap_example 1 = alerts_example"
    "frames heap_example 2 = plan_example"
    by (simp_all add: heap_example_def)
  have keep: "frames h' 0 = metrics_example \<and> frames h' 1 = alerts_example \<and>
       frames h' 2 = plan_example"
    if "\<forall>r < next_ref heap_example. frames h' r = frames heap_example r" for h'
    using that n f by metis
  have m1: "?M \<in> ?S" and m2: "add_alerts_body \<in> ?S"
    and m3: "add_planning_columns_body 0 26 \<in> ?S"
    and m4: "build_production_plan_body plan_example_params \<in> ?S"
    by simp_all
  have c1: "\<exists>res h'. exec ?M 0 heap_example = (res, h') \<and>
       frames h' 0 = metrics_example \<and> frames h' 1 = alerts_example \<and>
       frames h' 2 = plan_example"
  proof -
    obtain res h' where ex: "exec ?M 0 heap_example = (res, h')"
      by (cases "exec ?M 0 heap_example")
    from input_table_unchanged [OF n(1) m1 ex] keep ex show ?thesis by blast
  qed
  have c2: "\<exists>res h'. exec add_alerts_body 1 heap_example = (res, h') \<and>
       frames h' 0 = metrics_example \<and> frames h' 1 = alerts_example \<and>
       frames h' 2 = plan_example \<and>
       (\<forall>out. res = Inr out \<longrightarrow>
          out \<noteq> 1 \<and> add_alerts (Some alerts_example) = Inr (Some (frames h' out)))"
  proof -
    obtain res h' where ex: "exec add_alerts_body 1 heap_example = (res, h')"
      by (cases "exec add_alerts_body 1 heap_example")
    note th = input_table_unchanged [OF n(2) m2 ex]
    have "out \<noteq> 1 \<and> add_alerts (Some alerts_example) = Inr (Some (frames h' out))"
      if "res = Inr out" for out
      using th [unfolded f] that by (simp add: add_alerts_def)
    with th keep ex show ?thesis by blast
  qed
  have c3: "\<exists>res h'. exec (add_planning_columns_body 0 26) 0 heap_example = (res, h') \<and>
       frames h' 0 = metrics_example \<and> frames h' 1 = alerts_example \<and>
       frames h' 2 = plan_example"
  proof -
    obtain res h' where ex: "exec (add_planning_columns_body 0 26) 0 heap_example = (res, h')"
      by (cases "exec (add_planning_columns_body 0 26) 0 heap_example")
    from input_table_unchanged [OF n(1) m3 ex] keep ex show ?thesis by blast
  qed
  have c4: "\<exists>res h'. exec (build_production_plan_body plan_example_params) 2 heap_example
         = (res, h') \<and>
       frames h' 0 = metrics_example \<and> frames h' 1 = alerts_example \<and>
       frames h' 2 = plan_example \<and>
       (\<forall>out. res = Inr out \<longrightarrow>
          out \<noteq> 2 \<and>
          build_production_plan plan_example plan_example_params = Inr (frames h' out))"
  proof -
    obtain res h' where ex:
      "exec (build_production_plan_body plan_example_params) 2 heap_example = (res, h')"
      by (cases "exec (build_production_plan_body plan_example_params) 2 heap_example")
    note th = input_table_unchanged [OF n(3) m4 ex]
    have "out \<noteq> 2 \<and>
          build_production_plan plan_example plan_example_params = Inr (frames h' out)"
      if "res = Inr out" for out
      using th [unfolded f] that by (simp add: build_production_plan_def)
    with th keep ex show ?thesis by blast
  qed
  from c1 c2 c3 c4 show ?thesis by blast
qed

end
